theory Spec2Isabelle
  imports Complex_Main "HOL-Library.Char_ord" "HOL-Library.List_Lexorder"
begin

section \<open>WaterWise: usage analytics and the recommendation composer\<close>

text \<open>
  A shallow embedding of the analytics functions \<^verbatim>\<open>analyzeUsagePatterns\<close>,
  \<^verbatim>\<open>calculateMonthlyTrends\<close>, \<^verbatim>\<open>identifySavingsOpportunities\<close> and
  \<^verbatim>\<open>generateUsageReport\<close>, of the advisor \<^verbatim>\<open>services/ai/waterAdvisor.ts\<close>, and of the
  queries of \<^verbatim>\<open>db/usage.ts\<close> and \<^verbatim>\<open>db/bills.ts\<close> that they call.

  Conventions of the model.
  \<^item> A number read from the store is a \<^typ>\<open>real\<close>. The weekday averages of
    \<^verbatim>\<open>analyzeUsagePatterns\<close> are computed as JavaScript does, in IEEE binary64: each
    addition and the division round to the nearest binary64 number (\<open>binary64\<close>), and
    the result is a \<open>jsnum\<close>, which also has \<open>NaN\<close> and \<open>\<plusminus>Infinity\<close>; a stored
    number that is no binary64 number is rounded by the first addition. Elsewhere
    arithmetic is exact; the one division whose divisor is not guarded by a test on that
    same divisor (in \<^verbatim>\<open>identifySavingsOpportunities\<close>) gives a \<open>jsnum\<close> as well, with the
    values a zero divisor has in JavaScript.
  \<^item> An \<^verbatim>\<open>async\<close> function that may reject returns \<open>error + 'a\<close>; \<open>Inl\<close> is the
    rejection. \<^verbatim>\<open>try { ... } catch\<close> is a case distinction on that sum.
  \<^item> The store is read as a snapshot: within one call every query on a table sees the
    same rows, or every query on it fails. A table is the list of its rows in the order
    \<^verbatim>\<open>getAllUsage\<close> and \<^verbatim>\<open>getAllBills\<close> return them; the aggregate queries are
    modelled from their SQL text, as the SQLite engine evaluates it.
  \<^item> The built-ins of the JavaScript runtime that depend on the device (the \<^verbatim>\<open>Date\<close>
    parser and time zone, the clock) are parameters, collected in the record \<open>Runtime\<close>.
\<close>

subsection \<open>Errors and rows of the store\<close>

datatype error = DataAccessError | NetworkError | TypeError

text \<open>\<^verbatim>\<open>interface Usage\<close> of \<^verbatim>\<open>db/usage.ts\<close> and \<^verbatim>\<open>interface Bill\<close> of \<^verbatim>\<open>db/bills.ts\<close>.\<close>

record Usage =
  usage_id :: int
  liters :: real
  date :: string
  time :: "string option"
  category :: "string option"
  location :: "string option"
  description :: "string option"

record Bill =
  bill_id :: string
  amount :: real
  date :: string
  consumptionLiters :: real
  currency :: "string option"

text \<open>
  What \<^verbatim>\<open>new Date(s)\<close> answers for a date string on this device, and the clock.
  \<open>None\<close> is \<^verbatim>\<open>NaN\<close>, the answer of an invalid date. \<open>startDateStr days\<close> is the string
  \<^verbatim>\<open>getAverageDailyUsage(days)\<close> computes from \<^verbatim>\<open>new Date()\<close>; \<open>todayStr\<close> is
  \<^verbatim>\<open>new Date().toISOString().split('T')[0]\<close>. \<open>numberToString\<close> is \<^verbatim>\<open>Number::toString\<close>,
  which \<^verbatim>\<open>toFixed\<close> falls back to from \<open>10^21\<close> on.
\<close>

record Runtime =
  getDay :: "string \<Rightarrow> nat option"
  getFullYear :: "string \<Rightarrow> int option"
  getMonth :: "string \<Rightarrow> nat option"
  startDateStr :: "nat \<Rightarrow> string"
  todayStr :: string
  numberToString :: "real \<Rightarrow> string"

subsection \<open>Numbers as text\<close>

definition digit_char :: "nat \<Rightarrow> char" where
  "digit_char d = ''0123456789'' ! d"

text \<open>The decimal digits of a natural number, as \<^verbatim>\<open>String(n)\<close> prints them.\<close>

function dec_string :: "nat \<Rightarrow> string" where
  "dec_string n = (if n < 10 then [digit_char n] else dec_string (n div 10) @ [digit_char (n mod 10)])"
  by pat_completeness auto
termination
  by (relation "measure (\<lambda>n. n)") auto

declare dec_string.simps [simp del]

definition int_string :: "int \<Rightarrow> string" where
  "int_string i = (if i < 0 then ''-'' @ dec_string (nat (- i)) else dec_string (nat i))"

text \<open>\<^verbatim>\<open>s.padStart(n, '0')\<close>.\<close>

definition padStart :: "nat \<Rightarrow> string \<Rightarrow> string" where
  "padStart n s = replicate (n - length s) (CHR ''0'') @ s"

text \<open>
  \<^verbatim>\<open>Number.prototype.toFixed(f)\<close> (ECMA-262, 21.1.3.3) on a finite number: the sign, then
  the integer \<open>n\<close> nearest to \<open>x * 10^f\<close> (the larger one on a tie), printed with \<open>f\<close>
  digits after the point.
\<close>

definition toFixed :: "Runtime \<Rightarrow> nat \<Rightarrow> real \<Rightarrow> string" where
  "toFixed rt f x0 =
     (let s = (if x0 < 0 then ''-'' else '''');
          x = (if x0 < 0 then - x0 else x0)
      in if x \<ge> 10 ^ 21 then s @ numberToString rt x
         else
           let n = nat \<lfloor>x * 10 ^ f + 1 / 2\<rfloor>;
               m = dec_string n;
               m' = (if f \<noteq> 0
                     then let z = padStart (f + 1) m;
                              k = length z
                          in take (k - f) z @ ''.'' @ drop (k - f) z
                     else m)
           in s @ m')"

subsection \<open>JavaScript numbers\<close>

text \<open>A value of type \<^verbatim>\<open>number\<close>: a finite number, \<^verbatim>\<open>NaN\<close>, or an infinity.\<close>

datatype jsnum = Fin real | NaN | PosInf | NegInf

text \<open>\<open>2^k\<close> for an integer \<open>k\<close>.\<close>

definition pow2 :: "int \<Rightarrow> real" where
  "pow2 k = (if 0 \<le> k then 2 ^ nat k else 1 / 2 ^ nat (- k))"

text \<open>The integer nearest to \<open>y\<close>, the even one of the two on a tie.\<close>

definition rne :: "real \<Rightarrow> int" where
  "rne y = (let f = \<lfloor>y\<rfloor>; r = y - real_of_int f
            in if r < 1 / 2 then f else if 1 / 2 < r then f + 1
               else if even f then f else f + 1)"

text \<open>
  The binary64 number an exact result \<open>x\<close> is rounded to (IEEE 754, round to nearest,
  ties to even): 53 significant bits at the binary exponent \<open>e\<close> of \<open>x\<close>, which is not
  taken below -1022 (subnormal numbers), so the spacing is \<open>2^(e - 52)\<close>; a result that
  rounds to \<open>2^1024\<close> or beyond is an infinity. The sign of a zero is not kept.
\<close>

definition binary64 :: "real \<Rightarrow> jsnum" where
  "binary64 x =
     (if x = 0 then Fin 0
      else let e = max \<lfloor>log 2 \<bar>x\<bar>\<rfloor> (- 1022);
               ulp = pow2 (e - 52);
               r = real_of_int (rne (\<bar>x\<bar> / ulp)) * ulp
           in if 2 ^ 1024 \<le> r then (if 0 < x then PosInf else NegInf)
              else Fin (if 0 < x then r else - r))"

text \<open>\<^verbatim>\<open>sum + val\<close> for a finite \<open>val\<close>.\<close>

fun num_add :: "jsnum \<Rightarrow> real \<Rightarrow> jsnum" where
  "num_add (Fin a) v = binary64 (a + v)"
| "num_add x v = x"

text \<open>\<^verbatim>\<open>total / n\<close> for a count \<open>n\<close>, which is \<open>+0\<close> when it is zero.\<close>

fun num_div :: "jsnum \<Rightarrow> real \<Rightarrow> jsnum" where
  "num_div (Fin a) n =
     (if n \<noteq> 0 then binary64 (a / n)
      else if a = 0 then NaN else if 0 < a then PosInf else NegInf)"
| "num_div x n = x"

subsection \<open>Pattern analyzer\<close>

record UsagePattern =
  dayOfWeek :: string
  averageUsage :: jsnum
  peakHours :: "nat list option"

text \<open>\<^verbatim>\<open>xs.reduce((sum, val) => sum + val, 0) / xs.length\<close>.\<close>

definition averageOf :: "real list \<Rightarrow> jsnum" where
  "averageOf xs = num_div (foldl (\<lambda>sum val. num_add sum val) (Fin 0) xs) (real (length xs))"

definition dayNames :: "string list" where
  "dayNames = [''Sunday'', ''Monday'', ''Tuesday'', ''Wednesday'', ''Thursday'', ''Friday'', ''Saturday'']"

text \<open>
  \<^verbatim>\<open>dayMap\<close> is an object with the keys 0 to 6. \<^verbatim>\<open>dayMap[d]\<close> at any other key, and at
  \<^verbatim>\<open>NaN\<close>, is \<^verbatim>\<open>undefined\<close>, and the \<^verbatim>\<open>.push\<close> on it throws a TypeError.
\<close>

type_synonym dayMap = "nat \<rightharpoonup> real list"

definition dayMap0 :: dayMap where
  "dayMap0 = [0 \<mapsto> [], 1 \<mapsto> [], 2 \<mapsto> [], 3 \<mapsto> [], 4 \<mapsto> [], 5 \<mapsto> [], 6 \<mapsto> []]"

definition pushDay :: "Runtime \<Rightarrow> Usage \<Rightarrow> dayMap \<Rightarrow> error + dayMap" where
  "pushDay rt u m =
     (case getDay rt (Usage.date u) of
        None \<Rightarrow> Inl TypeError
      | Some d \<Rightarrow> (case m d of
                    None \<Rightarrow> Inl TypeError
                  | Some xs \<Rightarrow> Inr (m(d \<mapsto> xs @ [liters u]))))"

text \<open>\<^verbatim>\<open>usage.forEach(u => ...)\<close>: the first throw ends the loop.\<close>

fun fillDays :: "Runtime \<Rightarrow> Usage list \<Rightarrow> dayMap \<Rightarrow> error + dayMap" where
  "fillDays rt [] m = Inr m"
| "fillDays rt (u # us) m =
     (case pushDay rt u m of Inl e \<Rightarrow> Inl e | Inr m' \<Rightarrow> fillDays rt us m')"

text \<open>\<^verbatim>\<open>for (let i = 0; i < 7; i++)\<close>, run over the list of indices still to visit.\<close>

fun collectPatterns :: "dayMap \<Rightarrow> nat list \<Rightarrow> UsagePattern list \<Rightarrow> error + UsagePattern list" where
  "collectPatterns m [] patterns = Inr patterns"
| "collectPatterns m (i # is) patterns =
     (case m i of
        None \<Rightarrow> Inl TypeError
      | Some xs \<Rightarrow>
          if length xs > 0
          then let avg = averageOf xs
               in collectPatterns m is
                    (patterns @ [\<lparr>dayOfWeek = dayNames ! i, averageUsage = avg, peakHours = None\<rparr>])
          else collectPatterns m is patterns)"

definition analyzeUsagePatterns :: "Runtime \<Rightarrow> error + Usage list \<Rightarrow> UsagePattern list" where
  "analyzeUsagePatterns rt getAllUsage =
     (case getAllUsage of
        Inl e \<Rightarrow> []
      | Inr usage \<Rightarrow>
          (case fillDays rt usage dayMap0 of
             Inl e \<Rightarrow> []
           | Inr m \<Rightarrow> (case collectPatterns m [0..<7] [] of Inl e \<Rightarrow> [] | Inr patterns \<Rightarrow> patterns)))"

subsection \<open>Trend aggregator\<close>

record MonthlyTrend =
  month :: string
  totalUsage :: real
  totalCost :: real
  averageDaily :: real

text \<open>
  An entry \<^verbatim>\<open>{ usage, cost, days }\<close> of \<^verbatim>\<open>monthMap\<close>; \<open>m_days\<close> is the
  \<^verbatim>\<open>Set<string>\<close> of date strings, of which only the size is read.
\<close>

record monthData =
  m_usage :: real
  m_cost :: real
  m_days :: "string set"

text \<open>
  \<^verbatim>\<open>monthMap\<close> is an object with string keys; \<^verbatim>\<open>Object.keys\<close> lists them in the order
  they were first written, so the model is an association list in that order.
\<close>

type_synonym monthMap = "(string \<times> monthData) list"

text \<open>
  \<^verbatim>\<open>`${date.getFullYear()}-${String(date.getMonth() + 1).padStart(2, '0')}`\<close>;
  \<^verbatim>\<open>NaN\<close> prints as \<^verbatim>\<open>NaN\<close>, and \<^verbatim>\<open>NaN + 1\<close> is \<^verbatim>\<open>NaN\<close>.
\<close>

definition monthKey :: "Runtime \<Rightarrow> string \<Rightarrow> string" where
  "monthKey rt d =
     (case getFullYear rt d of None \<Rightarrow> ''NaN'' | Some y \<Rightarrow> int_string y)
     @ ''-'' @
     padStart 2 (case getMonth rt d of None \<Rightarrow> ''NaN'' | Some m \<Rightarrow> dec_string (m + 1))"

text \<open>\<^verbatim>\<open>if (!monthMap[monthKey]) monthMap[monthKey] = { usage: 0, cost: 0, days: new Set() }\<close>.\<close>

definition ensureMonth :: "string \<Rightarrow> monthMap \<Rightarrow> monthMap" where
  "ensureMonth k mm =
     (if map_of mm k = None then mm @ [(k, \<lparr>m_usage = 0, m_cost = 0, m_days = {}\<rparr>)] else mm)"

text \<open>An in-place change of the entry at key \<open>k\<close>.\<close>

definition modifyMonth :: "string \<Rightarrow> (monthData \<Rightarrow> monthData) \<Rightarrow> monthMap \<Rightarrow> monthMap" where
  "modifyMonth k f mm = map (\<lambda>(k', v). if k' = k then (k', f v) else (k', v)) mm"

definition addUsageRow :: "Runtime \<Rightarrow> Usage \<Rightarrow> monthMap \<Rightarrow> monthMap" where
  "addUsageRow rt u mm =
     (let k = monthKey rt (Usage.date u)
      in modifyMonth k (\<lambda>v. v\<lparr>m_usage := m_usage v + liters u, m_days := insert (Usage.date u) (m_days v)\<rparr>)
           (ensureMonth k mm))"

definition addBillRow :: "Runtime \<Rightarrow> Bill \<Rightarrow> monthMap \<Rightarrow> monthMap" where
  "addBillRow rt b mm =
     (let k = monthKey rt (Bill.date b)
      in modifyMonth k (\<lambda>v. v\<lparr>m_cost := m_cost v + amount b\<rparr>) (ensureMonth k mm))"

definition buildMonthMap :: "Runtime \<Rightarrow> Usage list \<Rightarrow> Bill list \<Rightarrow> monthMap" where
  "buildMonthMap rt usage bills = fold (addBillRow rt) bills (fold (addUsageRow rt) usage [])"

text \<open>
  \<^verbatim>\<open>xs.slice(start)\<close> with one argument: a negative \<open>start\<close> counts from the end, and
  both ends are clamped. \<^verbatim>\<open>slice(-0)\<close> is \<^verbatim>\<open>slice(0)\<close>, the whole array.
\<close>

definition slice_from :: "int \<Rightarrow> 'a list \<Rightarrow> 'a list" where
  "slice_from start xs =
     (if start < 0 then drop (nat (max (int (length xs) + start) 0)) xs
      else drop (nat start) xs)"

text \<open>
  One \<^verbatim>\<open>MonthlyTrend\<close> of the last loop. Every key comes from \<^verbatim>\<open>Object.keys(monthMap)\<close>;
  a key without entry would make \<^verbatim>\<open>data.days\<close> throw, and the \<^verbatim>\<open>catch\<close> return \<open>[]\<close>.
  \<^verbatim>\<open>data.days.size || 1\<close> is 1 for an empty set.
\<close>

definition trendOf :: "monthMap \<Rightarrow> string \<Rightarrow> error + MonthlyTrend" where
  "trendOf mm k =
     (case map_of mm k of
        None \<Rightarrow> Inl TypeError
      | Some data \<Rightarrow>
          let daysInMonth = (if card (m_days data) = 0 then 1 else card (m_days data))
          in Inr \<lparr>month = k, totalUsage = m_usage data, totalCost = m_cost data,
                  averageDaily = m_usage data / real daysInMonth\<rparr>)"

fun pushTrends :: "monthMap \<Rightarrow> string list \<Rightarrow> MonthlyTrend list \<Rightarrow> error + MonthlyTrend list" where
  "pushTrends mm [] trends = Inr trends"
| "pushTrends mm (k # ks) trends =
     (case trendOf mm k of Inl e \<Rightarrow> Inl e | Inr t \<Rightarrow> pushTrends mm ks (trends @ [t]))"

text \<open>
  \<^verbatim>\<open>Promise.all([getAllUsage(), getAllBills()])\<close> rejects when either read does.
  \<^verbatim>\<open>sort()\<close> without a comparator orders strings by code unit.
\<close>

definition calculateMonthlyTrends ::
  "Runtime \<Rightarrow> int \<Rightarrow> error + Usage list \<Rightarrow> error + Bill list \<Rightarrow> MonthlyTrend list" where
  "calculateMonthlyTrends rt months getAllUsage getAllBills =
     (case (getAllUsage, getAllBills) of
        (Inr usage, Inr bills) \<Rightarrow>
          (let mm = buildMonthMap rt usage bills;
               sortedMonths = slice_from (- months) (sort (map fst mm))
           in case pushTrends mm sortedMonths [] of Inl e \<Rightarrow> [] | Inr trends \<Rightarrow> trends)
      | _ \<Rightarrow> [])"

subsection \<open>Opportunity identifier\<close>

text \<open>
  The value of the division \<^verbatim>\<open>totalUsage / days\<close>: a finite number, or what a zero
  divisor gives. The divisor is a count, so a zero divisor is \<open>+0\<close>.
\<close>

definition js_div :: "real \<Rightarrow> real \<Rightarrow> jsnum" where
  "js_div a b =
     (if b \<noteq> 0 then Fin (a / b)
      else if a = 0 then NaN else if a > 0 then PosInf else NegInf)"

text \<open>\<open>x * c\<close>, \<open>x - c\<close> and \<open>x > c\<close> for a finite literal \<open>c\<close>.\<close>

fun js_mul :: "jsnum \<Rightarrow> real \<Rightarrow> jsnum" where
  "js_mul (Fin a) c = Fin (a * c)"
| "js_mul NaN c = NaN"
| "js_mul PosInf c = (if c > 0 then PosInf else if c < 0 then NegInf else NaN)"
| "js_mul NegInf c = (if c > 0 then NegInf else if c < 0 then PosInf else NaN)"

fun js_sub :: "jsnum \<Rightarrow> real \<Rightarrow> jsnum" where
  "js_sub (Fin a) c = Fin (a - c)"
| "js_sub x c = x"

fun js_gt :: "jsnum \<Rightarrow> real \<Rightarrow> bool" where
  "js_gt (Fin a) c = (a > c)"
| "js_gt PosInf c = True"
| "js_gt x c = False"

datatype priority = High | Medium | Low

record WaterSavingsOpportunity =
  category :: string
  currentUsage :: jsnum
  recommendedUsage :: real
  potentialSavings :: jsnum
  priority :: priority
  description :: string

text \<open>\<^verbatim>\<open>priorityOrder = { high: 0, medium: 1, low: 2 }\<close>.\<close>

fun priorityOrder :: "priority \<Rightarrow> nat" where
  "priorityOrder High = 0"
| "priorityOrder Medium = 1"
| "priorityOrder Low = 2"

text \<open>\<^verbatim>\<open>new Set(usage.map(u => u.date)).size\<close>.\<close>

definition distinctDays :: "Usage list \<Rightarrow> nat" where
  "distinctDays usage = card (set (map Usage.date usage))"

text \<open>\<^verbatim>\<open>usage.reduce((sum, u) => sum + u.liters, 0)\<close>.\<close>

definition sumLiters :: "Usage list \<Rightarrow> real" where
  "sumLiters usage = foldl (\<lambda>sum u. sum + liters u) 0 usage"

definition dailyAvgOf :: "Usage list \<Rightarrow> jsnum" where
  "dailyAvgOf usage = js_div (sumLiters usage) (real (distinctDays usage))"

text \<open>
  The four heuristics push in the order of the source; the final \<^verbatim>\<open>sort\<close> with the
  comparator \<^verbatim>\<open>priorityOrder[a.priority] - priorityOrder[b.priority]\<close> is stable.
\<close>

definition identifySavingsOpportunities :: "error + Usage list \<Rightarrow> WaterSavingsOpportunity list" where
  "identifySavingsOpportunities getAllUsage =
     (case getAllUsage of
        Inl e \<Rightarrow> []
      | Inr usage \<Rightarrow>
          if length usage = 0 then []
          else
            let dailyAvg = dailyAvgOf usage;
                showerUsage = js_mul dailyAvg 0.35;
                shower = (if js_gt showerUsage 50
                  then [\<lparr>category = ''Shower & Bath'', currentUsage = showerUsage,
                          recommendedUsage = 40,
                          potentialSavings = js_mul (js_sub showerUsage 40) 30,
                          priority = High,
                          description = ''Reduce shower time to 5 minutes or install low-flow showerheads''\<rparr>]
                  else []);
                toiletUsage = js_mul dailyAvg 0.27;
                toilet = (if js_gt toiletUsage 30
                  then [\<lparr>category = ''Toilet'', currentUsage = toiletUsage,
                          recommendedUsage = 24,
                          potentialSavings = js_mul (js_sub toiletUsage 24) 30,
                          priority = Medium,
                          description = ''Install dual-flush toilet system or check for leaks''\<rparr>]
                  else []);
                kitchenUsage = js_mul dailyAvg 0.20;
                kitchen = (if js_gt kitchenUsage 20
                  then [\<lparr>category = ''Kitchen'', currentUsage = kitchenUsage,
                          recommendedUsage = 15,
                          potentialSavings = js_mul (js_sub kitchenUsage 15) 30,
                          priority = Medium,
                          description = ''Use dishwasher efficiently, don'' @ [CHR 0x27] @ ''t pre-rinse dishes''\<rparr>]
                  else []);
                general = (if js_gt dailyAvg 150
                  then [\<lparr>category = ''General'', currentUsage = dailyAvg,
                          recommendedUsage = 100,
                          potentialSavings = js_mul (js_sub dailyAvg 100) 30,
                          priority = High,
                          description = ''Check for leaks and review all water-using activities''\<rparr>]
                  else [])
            in sort_key (\<lambda>a. priorityOrder (priority a)) (shower @ toilet @ kitchen @ general))"

subsection \<open>Report facade\<close>

record Summary =
  totalDays :: nat
  totalUsage :: real
  averageDaily :: real
  totalCost :: real

record UsageReport =
  summary :: Summary
  patterns :: "UsagePattern list"
  trends :: "MonthlyTrend list"
  opportunities :: "WaterSavingsOpportunity list"

text \<open>
  \<^verbatim>\<open>Promise.all\<close> of the two reads and the three analyses. The analyses never reject;
  a rejected read is logged and thrown again (\<^verbatim>\<open>throw error\<close>). When both reads
  reject, the error of \<^verbatim>\<open>getAllUsage\<close>, the first promise of the array, is modelled as
  the one thrown. \<^verbatim>\<open>calculateMonthlyTrends()\<close> is called with its default, 6.
\<close>

definition generateUsageReport ::
  "Runtime \<Rightarrow> error + Usage list \<Rightarrow> error + Bill list \<Rightarrow> error + UsageReport" where
  "generateUsageReport rt getAllUsage getAllBills =
     (case getAllUsage of
        Inl e \<Rightarrow> Inl e
      | Inr usage \<Rightarrow>
          (case getAllBills of
             Inl e \<Rightarrow> Inl e
           | Inr bills \<Rightarrow>
               let patterns = analyzeUsagePatterns rt getAllUsage;
                   trends = calculateMonthlyTrends rt 6 getAllUsage getAllBills;
                   opportunities = identifySavingsOpportunities getAllUsage;
                   totalUsage = foldl (\<lambda>sum u. sum + liters u) 0 usage;
                   totalCost = foldl (\<lambda>sum b. sum + amount b) 0 bills;
                   totalDays = card (set (map Usage.date usage));
                   averageDaily = (if totalDays > 0 then totalUsage / real totalDays else 0)
               in Inr \<lparr>summary = \<lparr>totalDays = totalDays, totalUsage = totalUsage,
                                     averageDaily = averageDaily, totalCost = totalCost\<rparr>,
                        patterns = patterns, trends = trends, opportunities = opportunities\<rparr>))"

subsection \<open>Queries of the store used by the advisor\<close>

text \<open>
  \<^verbatim>\<open>SELECT COALESCE(SUM(liters), 0) as total FROM usage WHERE date = ?\<close>, then
  \<^verbatim>\<open>result?.total || 0\<close>.
\<close>

definition getTotalUsageByDate :: "string \<Rightarrow> error + Usage list \<Rightarrow> error + real" where
  "getTotalUsageByDate d usageTable =
     (case usageTable of
        Inl e \<Rightarrow> Inl e
      | Inr rows \<Rightarrow> Inr (sum_list (map liters (filter (\<lambda>u. Usage.date u = d) rows))))"

text \<open>
  \<^verbatim>\<open>SELECT COALESCE(AVG(daily_total), 0) as avg FROM (SELECT date, SUM(liters) as
  daily_total FROM usage WHERE date >= ? GROUP BY date)\<close>, then \<^verbatim>\<open>result?.avg || 0\<close>.
  The dates are text, compared byte by byte; the average over no group is \<^verbatim>\<open>NULL\<close>,
  which \<^verbatim>\<open>COALESCE\<close> turns into 0.
\<close>

definition getAverageDailyUsage :: "Runtime \<Rightarrow> nat \<Rightarrow> error + Usage list \<Rightarrow> error + real" where
  "getAverageDailyUsage rt days usageTable =
     (case usageTable of
        Inl e \<Rightarrow> Inl e
      | Inr rows \<Rightarrow>
          let sel = filter (\<lambda>u. startDateStr rt days \<le> Usage.date u) rows;
              groups = remdups (map Usage.date sel);
              daily_total = map (\<lambda>d. sum_list (map liters (filter (\<lambda>u. Usage.date u = d) sel))) groups
          in Inr (if daily_total = [] then 0
                  else sum_list daily_total / real (length daily_total)))"

text \<open>
  \<^verbatim>\<open>SELECT COALESCE(SUM(consumptionLiters), 0) as total FROM bills\<close>, then
  \<^verbatim>\<open>result?.total || 0\<close>.
\<close>

definition getTotalConsumption :: "error + Bill list \<Rightarrow> error + real" where
  "getTotalConsumption billsTable =
     (case billsTable of
        Inl e \<Rightarrow> Inl e
      | Inr rows \<Rightarrow> Inr (sum_list (map consumptionLiters rows)))"

subsection \<open>Recommendation composer\<close>

datatype trend = Increasing | Decreasing | Stable

record UsageAnalysis =
  todayUsage :: real
  avgDailyUsage :: real
  comparisonToRecommended :: real
  trend :: trend

text \<open>The constant is the integer 100, which a template literal prints as its digits.\<close>

definition RECOMMENDED_DAILY_USAGE :: real where
  "RECOMMENDED_DAILY_USAGE = 100"

definition getUserUsageAnalysis :: "Runtime \<Rightarrow> error + Usage list \<Rightarrow> error + UsageAnalysis" where
  "getUserUsageAnalysis rt usageTable =
     (case getTotalUsageByDate (todayStr rt) usageTable of
        Inl e \<Rightarrow> Inl e
      | Inr today \<Rightarrow>
     (case getAverageDailyUsage rt 30 usageTable of
        Inl e \<Rightarrow> Inl e
      | Inr avg \<Rightarrow>
     (case getAverageDailyUsage rt 7 usageTable of
        Inl e \<Rightarrow> Inl e
      | Inr recentAvg \<Rightarrow>
     (case getAverageDailyUsage rt 30 usageTable of
        Inl e \<Rightarrow> Inl e
      | Inr olderAvg \<Rightarrow>
          Inr \<lparr>todayUsage = today,
               avgDailyUsage = avg,
               comparisonToRecommended =
                 ((avg - RECOMMENDED_DAILY_USAGE) / RECOMMENDED_DAILY_USAGE) * 100,
               trend = (if recentAvg > olderAvg * 1.1 then Increasing
                        else if recentAvg < olderAvg * 0.9 then Decreasing
                        else Stable)\<rparr>))))"

record BillsAnalysis =
  totalConsumption :: real
  averageCostPerLiter :: real
  billCount :: nat

definition getBillsAnalysis :: "error + Bill list \<Rightarrow> error + BillsAnalysis" where
  "getBillsAnalysis billsTable =
     (case billsTable of
        Inl e \<Rightarrow> Inl e
      | Inr bills \<Rightarrow>
     (case getTotalConsumption billsTable of
        Inl e \<Rightarrow> Inl e
      | Inr consumption \<Rightarrow>
          let totalCost = foldl (\<lambda>sum bill. sum + amount bill) 0 bills
          in Inr \<lparr>totalConsumption = consumption,
                  averageCostPerLiter = (if consumption > 0 then totalCost / consumption else 0),
                  billCount = length bills\<rparr>))"

text \<open>\<^verbatim>\<open>interface LocationData\<close> and \<^verbatim>\<open>interface WeatherData\<close>.\<close>

record LocationData =
  country :: string
  countryCode :: string
  city :: string
  lat :: real
  lon :: real
  timezone :: string
  regionName :: string

record WeatherData =
  latitude :: real
  longitude :: real
  temperature :: real
  humidity :: real
  precipitation :: real
  windSpeed :: real
  weatherCode :: real

record RegionalContext =
  temperature :: real
  humidity :: real
  precipitation :: real
  recommendation :: string

text \<open>
  The two awaited calls are parameters: \<open>getLocation\<close> is what \<^verbatim>\<open>getLocation()\<close> settles
  to, \<open>getCurrentWeather\<close> what \<^verbatim>\<open>getCurrentWeather(lat, lon)\<close> settles to (an HTTP
  request behind a cache). Either rejection lands in the \<^verbatim>\<open>catch\<close>.
\<close>

definition getRegionalWaterContext ::
  "error + LocationData \<Rightarrow> (real \<Rightarrow> real \<Rightarrow> error + WeatherData) \<Rightarrow> RegionalContext" where
  "getRegionalWaterContext getLocation getCurrentWeather =
     (let unavailable = \<lparr>temperature = 0, humidity = 0, precipitation = 0,
                          recommendation = ''Unable to fetch regional weather data.''\<rparr>
      in case getLocation of
           Inl e \<Rightarrow> unavailable
         | Inr loc \<Rightarrow>
             (case getCurrentWeather (lat loc) (lon loc) of
                Inl e \<Rightarrow> unavailable
              | Inr weather \<Rightarrow>
                  \<lparr>temperature = WeatherData.temperature weather,
                   humidity = WeatherData.humidity weather,
                   precipitation = WeatherData.precipitation weather,
                   recommendation =
                     (if WeatherData.precipitation weather < 1 \<and> WeatherData.humidity weather < 40
                      then ''Low rainfall and humidity detected. Consider reducing outdoor water usage.''
                      else if WeatherData.precipitation weather > 10
                      then ''Good rainfall! Perfect time to collect rainwater for later use.''
                      else if WeatherData.temperature weather > 30
                      then ''High temperatures increase water evaporation. Water plants early morning or late evening.''
                      else ''Weather conditions are normal. Maintain regular water conservation practices.'')\<rparr>))"

datatype rectype = UsageRec | SavingsRec | RegionalRec | BillRec

record AdvisorRecommendation =
  type :: rectype
  priority :: priority
  title :: string
  message :: string
  actionable :: string
  potentialSavings :: "real option"

text \<open>The recommendation pushed by the \<^verbatim>\<open>catch\<close> block.\<close>

definition startTracking :: AdvisorRecommendation where
  "startTracking =
     \<lparr>type = UsageRec, priority = Low, title = ''Start Tracking'',
      message = ''Add your water usage and bills to get personalized recommendations.'',
      actionable = ''Tap on '' @ [CHR 0x22] @ ''Add Usage'' @ [CHR 0x22] @ '' or '' @ [CHR 0x22]
                   @ ''Water Bills'' @ [CHR 0x22] @ '' to start tracking your water consumption.'',
      potentialSavings = None\<rparr>"

definition usageRecommendation :: "Runtime \<Rightarrow> UsageAnalysis \<Rightarrow> AdvisorRecommendation" where
  "usageRecommendation rt usageAnalysis =
     (if avgDailyUsage usageAnalysis > RECOMMENDED_DAILY_USAGE
      then let excessUsage = avgDailyUsage usageAnalysis - RECOMMENDED_DAILY_USAGE;
               savings = excessUsage * 30
           in \<lparr>type = UsageRec, priority = High, title = ''Reduce Daily Water Usage'',
                message = ''Your average daily usage is '' @ toFixed rt 1 (avgDailyUsage usageAnalysis)
                  @ ''L, which is '' @ toFixed rt 0 (comparisonToRecommended usageAnalysis)
                  @ ''% above the recommended '' @ dec_string (nat \<lfloor>RECOMMENDED_DAILY_USAGE\<rfloor>) @ ''L per day.'',
                actionable = ''Try reducing shower time by 2-3 minutes and fix any leaking faucets.'',
                potentialSavings = Some savings\<rparr>
      else \<lparr>type = UsageRec, priority = Low, title = ''Excellent Water Conservation!'',
             message = ''Your daily average of '' @ toFixed rt 1 (avgDailyUsage usageAnalysis)
               @ ''L is within recommended limits.'',
             actionable = ''Keep up the great work! Share your water-saving tips with others.'',
             potentialSavings = None\<rparr>)"

definition trendAlert :: AdvisorRecommendation where
  "trendAlert =
     \<lparr>type = UsageRec, priority = Medium, title = ''Usage Trend Alert'',
      message = ''Your water usage has been increasing over the past week.'',
      actionable = ''Review your recent activities and identify opportunities to reduce consumption.'',
      potentialSavings = None\<rparr>"

definition lowRainfall :: "Runtime \<Rightarrow> RegionalContext \<Rightarrow> AdvisorRecommendation" where
  "lowRainfall rt regionalContext =
     \<lparr>type = RegionalRec, priority = High, title = ''Low Rainfall in Your Area'',
      message = ''Current precipitation: '' @ toFixed rt 1 (RegionalContext.precipitation regionalContext)
        @ ''mm. Your region is experiencing dry conditions.'',
      actionable = ''Limit outdoor watering to early morning only and consider rainwater harvesting for future use.'',
      potentialSavings = None\<rparr>"

definition reduceCosts :: "Runtime \<Rightarrow> BillsAnalysis \<Rightarrow> AdvisorRecommendation" where
  "reduceCosts rt billsAnalysis =
     (let monthlyPotentialSaving = averageCostPerLiter billsAnalysis * 1000
      in \<lparr>type = BillRec, priority = Medium, title = ''Reduce Water Costs'',
           message = ''Your average cost is $'' @ toFixed rt 4 (averageCostPerLiter billsAnalysis)
             @ '' per liter.'',
           actionable = ''Reducing usage by 1000L monthly could save you $''
             @ toFixed rt 2 monthlyPotentialSaving @ ''.'',
           potentialSavings = Some monthlyPotentialSaving\<rparr>)"

text \<open>
  The three awaits come first, in this order, and nothing after them can throw, so the
  \<^verbatim>\<open>catch\<close> block always finds \<^verbatim>\<open>recommendations\<close> empty.
\<close>

definition generateRecommendations ::
  "Runtime \<Rightarrow> error + Usage list \<Rightarrow> error + Bill list \<Rightarrow> error + LocationData
     \<Rightarrow> (real \<Rightarrow> real \<Rightarrow> error + WeatherData) \<Rightarrow> AdvisorRecommendation list" where
  "generateRecommendations rt usageTable billsTable getLocation getCurrentWeather =
     (case getUserUsageAnalysis rt usageTable of
        Inl e \<Rightarrow> [startTracking]
      | Inr usageAnalysis \<Rightarrow>
     (case getBillsAnalysis billsTable of
        Inl e \<Rightarrow> [startTracking]
      | Inr billsAnalysis \<Rightarrow>
          let regionalContext = getRegionalWaterContext getLocation getCurrentWeather
          in [usageRecommendation rt usageAnalysis]
             @ (if trend usageAnalysis = Increasing then [trendAlert] else [])
             @ (if RegionalContext.precipitation regionalContext < 1
                then [lowRainfall rt regionalContext] else [])
             @ (if averageCostPerLiter billsAnalysis > 0.01
                then [reduceCosts rt billsAnalysis] else [])))"

subsection \<open>Notions used to state the properties\<close>

text \<open>The liters of the events whose date falls on weekday \<open>i\<close> (0 is Sunday), in store order.\<close>

definition litersOnWeekday :: "Runtime \<Rightarrow> Usage list \<Rightarrow> nat \<Rightarrow> real list" where
  "litersOnWeekday rt usage i = map liters (filter (\<lambda>u. getDay rt (Usage.date u) = Some i) usage)"

text \<open>Every event carries a date that \<^verbatim>\<open>Date\<close> resolves to a weekday, 0 to 6.\<close>

definition validDates :: "Runtime \<Rightarrow> Usage list \<Rightarrow> bool" where
  "validDates rt usage =
     list_all (\<lambda>u. case getDay rt (Usage.date u) of None \<Rightarrow> False | Some d \<Rightarrow> d < 7) usage"


text \<open>The month keys that have a usage event or a bill.\<close>

definition activeMonths :: "Runtime \<Rightarrow> Usage list \<Rightarrow> Bill list \<Rightarrow> string set" where
  "activeMonths rt usage bills =
     set (map (\<lambda>u. monthKey rt (Usage.date u)) usage @ map (\<lambda>b. monthKey rt (Bill.date b)) bills)"

subsection \<open>Sample store states\<close>

text \<open>
  A device on which the dates below resolve as in the UTC calendar: 2024-01-01 and
  2024-01-08 are Mondays, 2024-01-03 is a Wednesday. The clock stands at 2024-01-09, so
  the 7-day window starts at 2024-01-02 and the 30-day window at 2023-12-10.
\<close>

definition sampleRuntime :: Runtime where
  "sampleRuntime =
     \<lparr>getDay = [''2024-01-01'' \<mapsto> 1, ''2024-01-08'' \<mapsto> 1, ''2024-01-03'' \<mapsto> 3],
      getFullYear = [''2024-01-01'' \<mapsto> 2024, ''2024-01-08'' \<mapsto> 2024, ''2024-01-03'' \<mapsto> 2024,
                     ''2023-12-05'' \<mapsto> 2023, ''2023-11-05'' \<mapsto> 2023, ''2023-10-05'' \<mapsto> 2023,
                     ''2023-09-05'' \<mapsto> 2023, ''2023-08-05'' \<mapsto> 2023, ''2023-07-05'' \<mapsto> 2023],
      getMonth = [''2024-01-01'' \<mapsto> 0, ''2024-01-08'' \<mapsto> 0, ''2024-01-03'' \<mapsto> 0,
                  ''2023-12-05'' \<mapsto> 11, ''2023-11-05'' \<mapsto> 10, ''2023-10-05'' \<mapsto> 9,
                  ''2023-09-05'' \<mapsto> 8, ''2023-08-05'' \<mapsto> 7, ''2023-07-05'' \<mapsto> 6],
      startDateStr = (\<lambda>n. if n = 7 then ''2024-01-02'' else ''2023-12-10''),
      todayStr = ''2024-01-09'',
      numberToString = (\<lambda>x. ''1e+21'')\<rparr>"

definition usageRow :: "real \<Rightarrow> string \<Rightarrow> Usage" where
  "usageRow l d = \<lparr>usage_id = 0, liters = l, date = d, time = None, category = None,
                   location = None, description = None\<rparr>"

definition billRow :: "real \<Rightarrow> string \<Rightarrow> real \<Rightarrow> Bill" where
  "billRow a d c = \<lparr>bill_id = ''BILL-1'', amount = a, date = d, consumptionLiters = c,
                    currency = Some ''USD''\<rparr>"

text \<open>Two Mondays and a Wednesday.\<close>

definition weekUsage :: "Usage list" where
  "weekUsage = [usageRow 100 ''2024-01-01'', usageRow 200 ''2024-01-08'', usageRow 5 ''2024-01-03'']"

text \<open>One row whose date the device cannot parse, and one Monday.\<close>

definition mixedUsage :: "Usage list" where
  "mixedUsage = [usageRow 7 ''not-a-date'', usageRow 100 ''2024-01-01'']"

text \<open>Seven events on Mondays, 29 liters in all.\<close>

definition mondayUsage :: "Usage list" where
  "mondayUsage = [usageRow 5 ''2024-01-01'', usageRow 4 ''2024-01-08'', usageRow 4 ''2024-01-01'',
                  usageRow 4 ''2024-01-08'', usageRow 4 ''2024-01-01'', usageRow 4 ''2024-01-08'',
                  usageRow 4 ''2024-01-01'']"

text \<open>400 liters on two distinct days: a daily average of 200.\<close>

definition heavyUsage :: "Usage list" where
  "heavyUsage = [usageRow 100 ''2024-01-01'', usageRow 200 ''2024-01-08'', usageRow 100 ''2024-01-01'']"

text \<open>A 30-day average of 80 and a 7-day average of 60.\<close>

definition lightUsage :: "Usage list" where
  "lightUsage = [usageRow 100 ''2024-01-01'', usageRow 60 ''2024-01-08'']"

text \<open>20 currency units for 1000 liters: 0.02 per liter.\<close>

definition oneBill :: "Bill list" where
  "oneBill = [billRow 20 ''2023-12-05'' 1000]"

text \<open>Bills in six earlier months; with \<open>weekUsage\<close>, seven months have activity.\<close>

definition halfYearBills :: "Bill list" where
  "halfYearBills = [billRow 20 ''2023-12-05'' 1000, billRow 21 ''2023-11-05'' 1000,
                    billRow 22 ''2023-10-05'' 1000, billRow 23 ''2023-09-05'' 1000,
                    billRow 24 ''2023-08-05'' 1000, billRow 25 ''2023-07-05'' 1000]"

text \<open>The default location of \<^verbatim>\<open>getLocation\<close>.\<close>

definition tehran :: LocationData where
  "tehran = \<lparr>country = ''Iran'', countryCode = ''IR'', city = ''Tehran'', lat = 35.6892,
             lon = 51.3890, timezone = ''Asia/Tehran'', regionName = ''Tehran''\<rparr>"

definition weatherDown :: "real \<Rightarrow> real \<Rightarrow> error + WeatherData" where
  "weatherDown la lo = Inl NetworkError"

definition rainyDay :: WeatherData where
  "rainyDay = \<lparr>latitude = 35.6892, longitude = 51.3890, temperature = 12, humidity = 80,
               precipitation = 5, windSpeed = 3, weatherCode = 61\<rparr>"

definition weatherRainy :: "real \<Rightarrow> real \<Rightarrow> error + WeatherData" where
  "weatherRainy la lo = Inr rainyDay"

definition dryDay :: WeatherData where
  "dryDay = \<lparr>latitude = 35.6892, longitude = 51.3890, temperature = 25, humidity = 50,
             precipitation = 0, windSpeed = 3, weatherCode = 0\<rparr>"

definition weatherDry :: "real \<Rightarrow> real \<Rightarrow> error + WeatherData" where
  "weatherDry la lo = Inr dryDay"

section \<open>Properties\<close>

subsection \<open>Sums, counts and the text of numbers\<close>

lemma foldl_add_sum_list: "foldl (\<lambda>sum x. sum + f x) a xs = (a::real) + sum_list (map f xs)"
  by (induction xs arbitrary: a) simp_all

lemma sumLiters_sum_list: "sumLiters usage = sum_list (map liters usage)"
  by (simp add: sumLiters_def foldl_add_sum_list)

lemma distinctDays_pos: "usage \<noteq> [] \<Longrightarrow> 0 < distinctDays usage"
  by (cases usage) (simp_all add: distinctDays_def card_gt_0_iff)

lemma dailyAvgOf_Fin:
  "usage \<noteq> [] \<Longrightarrow> dailyAvgOf usage = Fin (sumLiters usage / real (distinctDays usage))"
  using distinctDays_pos [of usage] by (simp add: dailyAvgOf_def js_div_def)

lemma upt_7: "[0..<7] = [0, 1, 2, 3, 4, 5, 6]"
  by code_simp

lemma dec_string_digit: "n < 10 \<Longrightarrow> dec_string n = [digit_char n]"
  by (simp add: dec_string.simps)

lemma dec_string_more: "10 \<le> n \<Longrightarrow> dec_string n = dec_string (n div 10) @ [digit_char (n mod 10)]"
  by (subst dec_string.simps) simp

lemmas toFixed_eval = toFixed_def padStart_def digit_char_def dec_string_digit dec_string_more

lemma toFixed_1_zero: "toFixed rt 1 0 = ''0.0''" "toFixed rt (Suc 0) 0 = ''0.0''"
  by (simp_all add: toFixed_eval)

lemma toFixed_4_cost: "toFixed rt 4 0.02 = ''0.0200''"
  by (simp add: toFixed_eval)

lemma toFixed_2_saving: "toFixed rt 2 20 = ''20.00''"
  by (simp add: toFixed_eval)

lemmas sample_defs = sampleRuntime_def usageRow_def billRow_def weekUsage_def heavyUsage_def
  mixedUsage_def mondayUsage_def
  lightUsage_def oneBill_def halfYearBills_def tehran_def weatherDown_def rainyDay_def
  weatherRainy_def dryDay_def weatherDry_def

subsection \<open>The analyses on failing and on empty reads\<close>

lemma analyzeUsagePatterns_empty: "analyzeUsagePatterns rt (Inr []) = []"
  by (simp add: analyzeUsagePatterns_def upt_7 dayMap0_def)

lemma calculateMonthlyTrends_empty: "calculateMonthlyTrends rt months (Inr []) (Inr []) = []"
  by (simp add: calculateMonthlyTrends_def buildMonthMap_def slice_from_def)

lemma identifySavingsOpportunities_empty: "identifySavingsOpportunities (Inr []) = []"
  by (simp add: identifySavingsOpportunities_def)

lemma calculateMonthlyTrends_bills_fail: "calculateMonthlyTrends rt months getAllUsage (Inl e) = []"
  by (cases getAllUsage) (simp_all add: calculateMonthlyTrends_def)

text \<open>
  C2. \<^verbatim>\<open>generateUsageReport\<close> rejects exactly when the read of the usage events or the
  read of the bills fails. When both reads succeed with no rows it returns the report
  with a zeroed summary and empty lists. The three analyses, called on a failed read,
  return the empty list instead.
\<close>

theorem generateUsageReport_raises_iff_read_fails:
  "(isl (generateUsageReport rt getAllUsage getAllBills) \<longleftrightarrow> isl getAllUsage \<or> isl getAllBills)
   \<and> generateUsageReport rt (Inr []) (Inr [])
       = Inr \<lparr>summary = \<lparr>totalDays = 0, totalUsage = 0, averageDaily = 0, totalCost = 0\<rparr>,
              patterns = [], trends = [], opportunities = []\<rparr>
   \<and> analyzeUsagePatterns rt (Inl e) = []
   \<and> calculateMonthlyTrends rt months (Inl e) getAllBills = []
   \<and> calculateMonthlyTrends rt months getAllUsage (Inl e) = []
   \<and> identifySavingsOpportunities (Inl e) = []"
proof -
  have raises: "isl (generateUsageReport rt getAllUsage getAllBills) \<longleftrightarrow> isl getAllUsage \<or> isl getAllBills"
    by (cases getAllUsage; cases getAllBills) (simp_all add: generateUsageReport_def Let_def)
  have zero: "generateUsageReport rt (Inr []) (Inr [])
       = Inr \<lparr>summary = \<lparr>totalDays = 0, totalUsage = 0, averageDaily = 0, totalCost = 0\<rparr>,
              patterns = [], trends = [], opportunities = []\<rparr>"
    by (simp add: generateUsageReport_def analyzeUsagePatterns_empty calculateMonthlyTrends_empty
        identifySavingsOpportunities_empty)
  show ?thesis
    using raises zero calculateMonthlyTrends_bills_fail [of rt months getAllUsage e]
    by (simp add: analyzeUsagePatterns_def calculateMonthlyTrends_def identifySavingsOpportunities_def)
qed

text \<open>
  C2 at sample states: a failed usage read and a failed bill read each make the report
  fail, a store without rows does not, and a failed usage read leaves the pattern
  analysis with the empty list.
\<close>

theorem generateUsageReport_raises_iff_read_fails_witness:
  "isl (generateUsageReport sampleRuntime (Inl DataAccessError) (Inr oneBill))
   \<and> isl (generateUsageReport sampleRuntime (Inr weekUsage) (Inl DataAccessError))
   \<and> \<not> isl (generateUsageReport sampleRuntime (Inr []) (Inr []))
   \<and> analyzeUsagePatterns sampleRuntime (Inl DataAccessError) = []"
  using generateUsageReport_raises_iff_read_fails
          [of sampleRuntime "Inl DataAccessError" "Inr oneBill" DataAccessError 6]
        generateUsageReport_raises_iff_read_fails
          [of sampleRuntime "Inr weekUsage" "Inl DataAccessError" DataAccessError 6]
        generateUsageReport_raises_iff_read_fails
          [of sampleRuntime "Inr []" "Inr []" DataAccessError 6]
  by simp



subsection \<open>Opportunity identifier\<close>



lemma opportunities_finite:
  "opp \<in> set (identifySavingsOpportunities r) \<Longrightarrow>
     \<exists>a b. currentUsage opp = Fin a \<and> WaterSavingsOpportunity.potentialSavings opp = Fin b"
  by (cases r) (auto simp: identifySavingsOpportunities_def Let_def dailyAvgOf_Fin split: if_splits)




text \<open>
  C7. On the empty set of usage events the result is the empty list. On a non-empty
  one the divisor, the number of distinct dates, is at least 1 and the daily average is
  a finite number; on every input all figures of the opportunities returned are finite.
\<close>

theorem identifySavingsOpportunities_divisor_nonzero:
  "identifySavingsOpportunities (Inr []) = []
   \<and> (usage \<noteq> [] \<longrightarrow>
        1 \<le> distinctDays usage
        \<and> dailyAvgOf usage = Fin (sum_list (map liters usage) / real (distinctDays usage)))
   \<and> (\<forall>opp \<in> set (identifySavingsOpportunities r).
         \<exists>a b. currentUsage opp = Fin a \<and> WaterSavingsOpportunity.potentialSavings opp = Fin b)"
proof -
  have "usage \<noteq> [] \<longrightarrow>
        1 \<le> distinctDays usage
        \<and> dailyAvgOf usage = Fin (sum_list (map liters usage) / real (distinctDays usage))"
    using distinctDays_pos [of usage] by (auto simp: dailyAvgOf_Fin sumLiters_sum_list)
  then show ?thesis
    using opportunities_finite [of _ r] by (simp add: identifySavingsOpportunities_empty)
qed

text \<open>C7 on the sample: two distinct dates, and the finite daily average 200.\<close>

theorem identifySavingsOpportunities_divisor_nonzero_witness:
  "heavyUsage \<noteq> [] \<and> distinctDays heavyUsage = 2 \<and> dailyAvgOf heavyUsage = Fin 200
   \<and> identifySavingsOpportunities (Inr []) = []"
proof -
  have d: "distinctDays heavyUsage = 2"
    by (simp add: distinctDays_def sample_defs card_insert_if)
  have s: "sum_list (map liters heavyUsage) = 400" "heavyUsage \<noteq> []"
    by (simp_all add: sample_defs)
  from identifySavingsOpportunities_divisor_nonzero [of heavyUsage "Inr []"] s d
  show ?thesis by simp
qed

subsection \<open>Rounding to binary64\<close>

lemma pow2_powr: "pow2 k = 2 powr real_of_int k"
  by (simp add: pow2_def powr_real_of_int inverse_eq_divide)

lemma pow2_pos: "0 < pow2 k"
  by (simp add: pow2_powr)

lemma pow2_less_iff: "pow2 a < pow2 b \<longleftrightarrow> a < b"
  by (simp add: pow2_powr)

lemma pow2_le_iff: "pow2 a \<le> pow2 b \<longleftrightarrow> a \<le> b"
  by (simp add: pow2_powr)

lemma rne_error: "\<bar>real_of_int (rne y) - y\<bar> \<le> 1 / 2"
  unfolding rne_def Let_def by (auto simp: abs_if) linarith+

lemma rne_of_int: "rne (real_of_int k) = k"
  by (simp add: rne_def)

lemma exponent_eq:
  assumes "pow2 e \<le> \<bar>x\<bar>" "\<bar>x\<bar> < pow2 (e + 1)"
  shows "\<lfloor>log 2 \<bar>x\<bar>\<rfloor> = e"
proof -
  have "0 < \<bar>x\<bar>" using assms(1) pow2_pos [of e] by linarith
  then show ?thesis
    using assms by (simp add: floor_log_eq_powr_iff pow2_powr)
qed

text \<open>The rounding of a number whose binary exponent \<open>e\<close> is known.\<close>

lemma binary64_at:
  assumes "pow2 e \<le> \<bar>x\<bar>" "\<bar>x\<bar> < pow2 (e + 1)" "- 1022 \<le> e"
  shows "binary64 x =
     (let ulp = pow2 (e - 52);
          r = real_of_int (rne (\<bar>x\<bar> / ulp)) * ulp
      in if 2 ^ 1024 \<le> r then (if 0 < x then PosInf else NegInf)
         else Fin (if 0 < x then r else - r))"
proof -
  have "x \<noteq> 0" using assms(1) pow2_pos [of e] by auto
  then show ?thesis
    using assms(3) by (simp add: binary64_def exponent_eq [OF assms(1,2)] max_def)
qed

text \<open>Outside the subnormal range, rounding changes a number by at most \<open>2^-53\<close> of it.\<close>

lemma binary64_error:
  assumes "binary64 x = Fin v" "pow2 (- 1022) \<le> \<bar>x\<bar>"
  shows "\<bar>v - x\<bar> \<le> \<bar>x\<bar> / 2 ^ 53"
proof -
  define e where "e = \<lfloor>log 2 \<bar>x\<bar>\<rfloor>"
  have pos: "0 < \<bar>x\<bar>" using assms(2) pow2_pos [of "- 1022"] by linarith
  then have x0: "x \<noteq> 0" by simp
  from pos have bounds: "pow2 e \<le> \<bar>x\<bar>" "\<bar>x\<bar> < pow2 (e + 1)"
    using floor_log_eq_powr_iff [of "\<bar>x\<bar>" 2 e] by (simp_all add: e_def pow2_powr)
  have "pow2 (- 1022) < pow2 (e + 1)" using assms(2) bounds(2) by linarith
  then have e: "- 1022 \<le> e" by (simp add: pow2_less_iff)
  define ulp where "ulp = pow2 (e - 52)"
  define r where "r = real_of_int (rne (\<bar>x\<bar> / ulp)) * ulp"
  have ulp: "0 < ulp" by (simp add: ulp_def pow2_pos)
  from assms(1) have v: "v = (if 0 < x then r else - r)"
    using e x0 unfolding binary64_at [OF bounds e] ulp_def r_def
    by (simp add: Let_def split: if_splits)
  have "(real_of_int (rne (\<bar>x\<bar> / ulp)) - \<bar>x\<bar> / ulp) * ulp = r - \<bar>x\<bar>"
    using ulp by (simp add: r_def left_diff_distrib)
  then have "\<bar>r - \<bar>x\<bar>\<bar> = \<bar>real_of_int (rne (\<bar>x\<bar> / ulp)) - \<bar>x\<bar> / ulp\<bar> * ulp"
    using ulp by (metis abs_mult abs_of_pos)
  also have "\<dots> \<le> 1 / 2 * ulp"
    using rne_error [of "\<bar>x\<bar> / ulp"] ulp by (intro mult_right_mono) simp_all
  also have "1 / 2 * ulp = pow2 e / 2 ^ 53"
    by (simp add: ulp_def pow2_powr powr_diff)
  also have "\<dots> \<le> \<bar>x\<bar> / 2 ^ 53"
    using bounds(1) by (simp add: divide_right_mono)
  finally have "\<bar>r - \<bar>x\<bar>\<bar> \<le> \<bar>x\<bar> / 2 ^ 53" .
  moreover have "\<bar>v - x\<bar> = \<bar>r - \<bar>x\<bar>\<bar>"
    using x0 by (auto simp: v abs_if)
  ultimately show ?thesis by simp
qed

text \<open>The natural numbers below \<open>2^53\<close> are binary64 numbers.\<close>

lemma binary64_of_nat:
  assumes "k < 2 ^ 53"
  shows "binary64 (real k) = Fin (real k)"
proof (cases "k = 0")
  case True
  then show ?thesis by (simp add: binary64_def)
next
  case False
  define e where "e = \<lfloor>log 2 (real k)\<rfloor>"
  from False have pos: "0 < real k" by simp
  then have bounds: "pow2 e \<le> real k" "real k < pow2 (e + 1)"
    using floor_log_eq_powr_iff [of "real k" 2 e] by (simp_all add: e_def pow2_powr)
  have "1 \<le> real k" using False by simp
  then have "pow2 0 < pow2 (e + 1)" using bounds(2) by (simp add: pow2_def)
  then have e0: "0 \<le> e" by (simp add: pow2_less_iff)
  have small: "real k < 2 ^ 53" using assms by (metis of_nat_less_iff of_nat_numeral of_nat_power)
  then have "pow2 e < pow2 53" using bounds(1) by (simp add: pow2_def [of 53])
  then have e52: "e \<le> 52" by (simp add: pow2_less_iff)
  have ulp: "pow2 (e - 52) = 1 / 2 ^ nat (52 - e)"
    using e52 by (auto simp: pow2_def)
  have "real k / pow2 (e - 52) = real_of_int (int k * 2 ^ nat (52 - e))"
    by (simp add: ulp)
  then have r: "real_of_int (rne (real k / pow2 (e - 52))) * pow2 (e - 52) = real k"
    by (simp only: rne_of_int) (simp add: ulp)
  have "(2::real) ^ 53 \<le> 2 ^ 1024" by (rule power_increasing) simp_all
  with small have "real k < 2 ^ 1024" by linarith
  then show ?thesis
    using binary64_at [of e "real k"] bounds e0 pos by (simp add: Let_def r)
qed

lemma binary64_numeral:
  "(numeral w :: nat) < 2 ^ 53 \<Longrightarrow> binary64 (numeral w) = Fin (numeral w)"
  using binary64_of_nat [of "numeral w"] by simp

text \<open>29 / 7 is no binary64 number, and seven times its rounding rounds above 29.\<close>

lemma binary64_29_over_7: "binary64 (29 / 7) = Fin (4664442471205157 / 2 ^ 50)"
  by (subst binary64_at [where e = 2]) (simp_all add: pow2_def rne_def)

lemma binary64_times_7:
  "binary64 (4664442471205157 / 2 ^ 50 * 7) = Fin (8162774324609025 / 2 ^ 48)"
  by (subst binary64_at [where e = 4]) (simp_all add: pow2_def rne_def)



lemma averageOf_quotient:
  assumes "xs \<noteq> []" "foldl (\<lambda>sum val. num_add sum val) (Fin 0) xs = Fin s"
  shows "averageOf xs = binary64 (s / real (length xs))"
  using assms by (simp add: averageOf_def)

text \<open>The sample averages.\<close>

lemma sample_averages:
  "averageOf [100, 200] = Fin 150"
  "averageOf [5] = Fin 5"
  "foldl (\<lambda>sum val. num_add sum val) (Fin 0) [5, 4, 4, 4, 4, 4, 4] = Fin 29"
  "averageOf [5, 4, 4, 4, 4, 4, 4] = Fin (4664442471205157 / 2 ^ 50)"
  by (simp_all add: averageOf_def binary64_numeral binary64_29_over_7)

subsection \<open>Pattern analyzer\<close>

lemma dom_dayMap0: "dom dayMap0 = {0..<7}"
  by (auto simp: dayMap0_def split: if_splits)

lemma dayMap0_lookup: "i < 7 \<Longrightarrow> dayMap0 i = Some []"
proof -
  assume "i < 7"
  then have "i \<in> {0, 1, 2, 3, 4, 5, 6}" by auto
  then show ?thesis by (auto simp: dayMap0_def)
qed

text \<open>
  When every date resolves to a key of the map, the loop appends to each key the liters
  of its weekday, in order.
\<close>

lemma fillDays_valid:
  assumes "\<forall>u \<in> set usage. \<exists>d \<in> dom m. getDay rt (Usage.date u) = Some d"
  shows "fillDays rt usage m = Inr (\<lambda>i. map_option (\<lambda>xs. xs @ litersOnWeekday rt usage i) (m i))"
  using assms
proof (induction usage arbitrary: m)
  case Nil
  have "(\<lambda>i. map_option (\<lambda>xs. xs) (m i)) = m"
    by (rule ext) (simp add: option.map_ident)
  then show ?case by (simp add: litersOnWeekday_def)
next
  case (Cons u us)
  from Cons.prems obtain d xs where d: "getDay rt (Usage.date u) = Some d" "m d = Some xs"
    by auto
  let ?m' = "m(d \<mapsto> xs @ [liters u])"
  have step: "pushDay rt u m = Inr ?m'"
    using d by (simp add: pushDay_def)
  have "dom ?m' = dom m" using d by auto
  with Cons.prems have "\<forall>u \<in> set us. \<exists>d \<in> dom ?m'. getDay rt (Usage.date u) = Some d"
    by simp
  from Cons.IH [OF this]
  have "fillDays rt us ?m' = Inr (\<lambda>i. map_option (\<lambda>xs. xs @ litersOnWeekday rt us i) (?m' i))" .
  moreover have "(\<lambda>i. map_option (\<lambda>xs. xs @ litersOnWeekday rt us i) (?m' i))
               = (\<lambda>i. map_option (\<lambda>xs. xs @ litersOnWeekday rt (u # us) i) (m i))"
    using d by (auto simp: litersOnWeekday_def fun_eq_iff)
  ultimately show ?case using step by simp
qed

text \<open>A date that resolves to no key of the map ends the loop with a throw.\<close>

lemma fillDays_invalid:
  assumes "\<exists>u \<in> set usage. \<forall>d \<in> dom m. getDay rt (Usage.date u) \<noteq> Some d"
  shows "isl (fillDays rt usage m)"
  using assms
proof (induction usage arbitrary: m)
  case Nil
  then show ?case by simp
next
  case (Cons u us)
  show ?case
  proof (cases "pushDay rt u m")
    case (Inl e)
    then show ?thesis by simp
  next
    case (Inr m')
    then obtain d xs where d: "getDay rt (Usage.date u) = Some d" "m d = Some xs"
        and m': "m' = m(d \<mapsto> xs @ [liters u])"
      by (auto simp: pushDay_def split: option.splits)
    have "dom m' = dom m" using d m' by auto
    moreover from d have "\<not> (\<forall>d \<in> dom m. getDay rt (Usage.date u) \<noteq> Some d)" by auto
    ultimately have "\<exists>u \<in> set us. \<forall>d \<in> dom m'. getDay rt (Usage.date u) \<noteq> Some d"
      using Cons.prems by auto
    from Cons.IH [OF this] show ?thesis using Inr by simp
  qed
qed

lemma collectPatterns_total:
  assumes "\<forall>i \<in> set is. \<exists>xs. m i = Some xs"
  shows "collectPatterns m is acc
         = Inr (acc @ map (\<lambda>i. \<lparr>dayOfWeek = dayNames ! i,
                                 averageUsage = averageOf (the (m i)),
                                 peakHours = None\<rparr>)
                        (filter (\<lambda>i. the (m i) \<noteq> []) is))"
  using assms
  by (induction "is" arbitrary: acc) auto

lemma map_filter_cong:
  "(\<And>i. i \<in> set xs \<Longrightarrow> f i = g i \<and> P i = Q i) \<Longrightarrow> map f (filter P xs) = map g (filter Q xs)"
  by (induction xs) auto

lemma validDates_iff:
  "validDates rt usage \<longleftrightarrow> (\<forall>u \<in> set usage. \<exists>d \<in> dom dayMap0. getDay rt (Usage.date u) = Some d)"
  by (auto simp: validDates_def list_all_iff dom_dayMap0 split: option.splits)

lemma analyzeUsagePatterns_valid:
  assumes "validDates rt usage"
  shows "analyzeUsagePatterns rt (Inr usage)
         = map (\<lambda>i. \<lparr>dayOfWeek = dayNames ! i,
                      averageUsage = averageOf (litersOnWeekday rt usage i),
                      peakHours = None\<rparr>)
               (filter (\<lambda>i. litersOnWeekday rt usage i \<noteq> []) [0..<7])"
proof -
  let ?m = "\<lambda>i. map_option (\<lambda>xs. xs @ litersOnWeekday rt usage i) (dayMap0 i)"
  have fill: "fillDays rt usage dayMap0 = Inr ?m"
    using assms by (intro fillDays_valid) (simp add: validDates_iff)
  have look: "?m i = Some (litersOnWeekday rt usage i)" if "i < 7" for i
    using that by (simp add: dayMap0_lookup)
  have "collectPatterns ?m [0..<7] []
        = Inr ([] @ map (\<lambda>i. \<lparr>dayOfWeek = dayNames ! i,
                                averageUsage = averageOf (the (?m i)),
                                peakHours = None\<rparr>)
                       (filter (\<lambda>i. the (?m i) \<noteq> []) [0..<7]))"
    by (rule collectPatterns_total) (simp add: look)
  also have "map (\<lambda>i. \<lparr>dayOfWeek = dayNames ! i,
                        averageUsage = averageOf (the (?m i)),
                        peakHours = None\<rparr>)
                 (filter (\<lambda>i. the (?m i) \<noteq> []) [0..<7])
           = map (\<lambda>i. \<lparr>dayOfWeek = dayNames ! i,
                        averageUsage = averageOf (litersOnWeekday rt usage i),
                        peakHours = None\<rparr>)
               (filter (\<lambda>i. litersOnWeekday rt usage i \<noteq> []) [0..<7])"
    by (rule map_filter_cong) (simp add: look)
  finally show ?thesis
    using fill by (simp add: analyzeUsagePatterns_def)
qed

lemma analyzeUsagePatterns_invalid:
  assumes "\<not> validDates rt usage"
  shows "analyzeUsagePatterns rt (Inr usage) = []"
proof -
  have "isl (fillDays rt usage dayMap0)"
    using assms by (intro fillDays_invalid) (simp add: validDates_iff)
  then show ?thesis
    by (cases "fillDays rt usage dayMap0") (simp_all add: analyzeUsagePatterns_def)
qed

text \<open>An entry of the result is the entry of the weekday it is named after.\<close>

lemma pattern_of_weekday:
  assumes "p \<in> set (analyzeUsagePatterns rt (Inr usage))" "i < 7" "dayOfWeek p = dayNames ! i"
  shows "litersOnWeekday rt usage i \<noteq> []
         \<and> averageUsage p = averageOf (litersOnWeekday rt usage i)"
proof (cases "validDates rt usage")
  case False
  with assms(1) show ?thesis by (simp add: analyzeUsagePatterns_invalid)
next
  case True
  from assms(1) obtain j where j: "j < 7" "litersOnWeekday rt usage j \<noteq> []"
    and pj: "p = \<lparr>dayOfWeek = dayNames ! j,
                  averageUsage = averageOf (litersOnWeekday rt usage j),
                  peakHours = None\<rparr>"
    unfolding analyzeUsagePatterns_valid [OF True] by auto
  from assms(3) pj have "dayNames ! j = dayNames ! i" by simp
  with assms(2) j(1) have "j = i"
    by (simp add: nth_eq_iff_index_eq dayNames_def)
  with j(2) pj show ?thesis by simp
qed

lemma weekUsage_valid: "validDates sampleRuntime weekUsage"
  by (simp add: validDates_def sample_defs)

lemma weekUsage_by_weekday:
  "litersOnWeekday sampleRuntime weekUsage 1 = [100, 200]"
  "litersOnWeekday sampleRuntime weekUsage (Suc 0) = [100, 200]"
  "litersOnWeekday sampleRuntime weekUsage 3 = [5]"
  "litersOnWeekday sampleRuntime weekUsage 0 = []"
  "litersOnWeekday sampleRuntime weekUsage 2 = []"
  "litersOnWeekday sampleRuntime weekUsage 4 = []"
  "litersOnWeekday sampleRuntime weekUsage 5 = []"
  "litersOnWeekday sampleRuntime weekUsage 6 = []"
  by (simp_all add: litersOnWeekday_def sample_defs)

lemma mondayUsage_valid: "validDates sampleRuntime mondayUsage"
  by (simp add: validDates_def sample_defs)

lemma mondayUsage_by_weekday:
  "litersOnWeekday sampleRuntime mondayUsage 1 = [5, 4, 4, 4, 4, 4, 4]"
  "litersOnWeekday sampleRuntime mondayUsage (Suc 0) = [5, 4, 4, 4, 4, 4, 4]"
  "litersOnWeekday sampleRuntime mondayUsage 0 = []"
  "litersOnWeekday sampleRuntime mondayUsage 2 = []"
  "litersOnWeekday sampleRuntime mondayUsage 3 = []"
  "litersOnWeekday sampleRuntime mondayUsage 4 = []"
  "litersOnWeekday sampleRuntime mondayUsage 5 = []"
  "litersOnWeekday sampleRuntime mondayUsage 6 = []"
  by (simp_all add: litersOnWeekday_def sample_defs)

lemma mondayUsage_patterns:
  "analyzeUsagePatterns sampleRuntime (Inr mondayUsage)
   = [\<lparr>dayOfWeek = ''Monday'', averageUsage = Fin (4664442471205157 / 2 ^ 50), peakHours = None\<rparr>]"
  using analyzeUsagePatterns_valid [OF mondayUsage_valid]
  by (simp add: upt_7 mondayUsage_by_weekday dayNames_def sample_averages)





text \<open>
  C9, as the code has it. For every entry returned and the weekday it is named after,
  the average of the entry is the binary64 quotient of the binary64 sum of the liters
  of that weekday by the number of its events. When that quotient is exact, the average
  times the number of events is the sum. In general it is the sum only up to the
  rounding of the quotient: when sum and average are finite and the quotient is at least
  \<open>2^-1022\<close> in magnitude, the two differ by at most \<open>2^-53\<close> of the sum, the product
  being taken exactly. When all dates resolve to a weekday, every weekday with an event
  has an entry.
\<close>

theorem averageUsage_rounded_quotient:
  "(\<forall>p \<in> set (analyzeUsagePatterns rt (Inr usage)). \<forall>i < 7.
      dayOfWeek p = dayNames ! i \<longrightarrow>
      averageUsage p = averageOf (litersOnWeekday rt usage i)
      \<and> (\<forall>s. foldl (\<lambda>sum val. num_add sum val) (Fin 0) (litersOnWeekday rt usage i) = Fin s \<longrightarrow>
            averageUsage p = binary64 (s / real (length (litersOnWeekday rt usage i)))
            \<and> (binary64 (s / real (length (litersOnWeekday rt usage i)))
                 = Fin (s / real (length (litersOnWeekday rt usage i))) \<longrightarrow>
               (\<exists>v. averageUsage p = Fin v
                    \<and> v * real (length (litersOnWeekday rt usage i)) = s))
            \<and> (\<forall>v. averageUsage p = Fin v
                      \<and> pow2 (- 1022) \<le> \<bar>s\<bar> / real (length (litersOnWeekday rt usage i)) \<longrightarrow>
                    \<bar>v * real (length (litersOnWeekday rt usage i)) - s\<bar> \<le> \<bar>s\<bar> / 2 ^ 53)))
   \<and> (validDates rt usage \<longrightarrow>
        (\<forall>i < 7. litersOnWeekday rt usage i \<noteq> [] \<longrightarrow>
           (\<exists>p \<in> set (analyzeUsagePatterns rt (Inr usage)). dayOfWeek p = dayNames ! i)))"
proof -
  have entry: "averageUsage p = averageOf (litersOnWeekday rt usage i)
      \<and> (\<forall>s. foldl (\<lambda>sum val. num_add sum val) (Fin 0) (litersOnWeekday rt usage i) = Fin s \<longrightarrow>
            averageUsage p = binary64 (s / real (length (litersOnWeekday rt usage i)))
            \<and> (binary64 (s / real (length (litersOnWeekday rt usage i)))
                 = Fin (s / real (length (litersOnWeekday rt usage i))) \<longrightarrow>
               (\<exists>v. averageUsage p = Fin v
                    \<and> v * real (length (litersOnWeekday rt usage i)) = s))
            \<and> (\<forall>v. averageUsage p = Fin v
                      \<and> pow2 (- 1022) \<le> \<bar>s\<bar> / real (length (litersOnWeekday rt usage i)) \<longrightarrow>
                    \<bar>v * real (length (litersOnWeekday rt usage i)) - s\<bar> \<le> \<bar>s\<bar> / 2 ^ 53))"
    if p: "p \<in> set (analyzeUsagePatterns rt (Inr usage))" and i: "i < 7"
      and name: "dayOfWeek p = dayNames ! i" for p i
  proof -
    let ?xs = "litersOnWeekday rt usage i"
    let ?n = "real (length ?xs)"
    from pattern_of_weekday [OF p i name]
    have xs: "?xs \<noteq> []" and avg: "averageUsage p = averageOf ?xs" by simp_all
    from xs have n: "0 < ?n" by simp
    have "averageUsage p = binary64 (s / ?n)
          \<and> (binary64 (s / ?n) = Fin (s / ?n) \<longrightarrow> (\<exists>v. averageUsage p = Fin v \<and> v * ?n = s))
          \<and> (\<forall>v. averageUsage p = Fin v \<and> pow2 (- 1022) \<le> \<bar>s\<bar> / ?n \<longrightarrow>
                 \<bar>v * ?n - s\<bar> \<le> \<bar>s\<bar> / 2 ^ 53)"
      if s: "foldl (\<lambda>sum val. num_add sum val) (Fin 0) ?xs = Fin s" for s
    proof -
      have q: "averageUsage p = binary64 (s / ?n)"
        using avg averageOf_quotient [OF xs s] by simp
      have exact: "\<exists>v. averageUsage p = Fin v \<and> v * ?n = s"
        if "binary64 (s / ?n) = Fin (s / ?n)"
        using that q n by simp
      have bound: "\<bar>v * ?n - s\<bar> \<le> \<bar>s\<bar> / 2 ^ 53"
        if v: "averageUsage p = Fin v" and normal: "pow2 (- 1022) \<le> \<bar>s\<bar> / ?n" for v
      proof -
        from v q have "binary64 (s / ?n) = Fin v" by simp
        moreover from normal n have "pow2 (- 1022) \<le> \<bar>s / ?n\<bar>" by simp
        ultimately have "\<bar>v - s / ?n\<bar> \<le> \<bar>s / ?n\<bar> / 2 ^ 53"
          by (rule binary64_error)
        then have "\<bar>v - s / ?n\<bar> * ?n \<le> \<bar>s / ?n\<bar> / 2 ^ 53 * ?n"
          using n by (intro mult_right_mono) simp_all
        moreover have "\<bar>v - s / ?n\<bar> * ?n = \<bar>v * ?n - s\<bar>"
        proof -
          have "(v - s / ?n) * ?n = v * ?n - s" using n by (simp add: left_diff_distrib)
          then show ?thesis using n by (metis abs_mult abs_of_pos)
        qed
        moreover have "\<bar>s / ?n\<bar> / 2 ^ 53 * ?n = \<bar>s\<bar> / 2 ^ 53"
          using n by simp
        ultimately show ?thesis by simp
      qed
      from q exact bound show ?thesis by blast
    qed
    with avg show ?thesis by blast
  qed
  have covered: "\<exists>p \<in> set (analyzeUsagePatterns rt (Inr usage)). dayOfWeek p = dayNames ! i"
    if "validDates rt usage" "i < 7" "litersOnWeekday rt usage i \<noteq> []" for i
    unfolding analyzeUsagePatterns_valid [OF that(1)] using that(2,3) by (auto simp: image_iff)
  from entry covered show ?thesis by blast
qed

text \<open>
  C9 on the samples. Two Mondays with 100 and 200 liters: the average 150 times 2 is the
  sum 300. Seven Monday events of 29 liters in all: the average times 7 is within
  \<open>29 / 2^53\<close> of 29.
\<close>

theorem averageUsage_rounded_quotient_witness:
  "\<lparr>dayOfWeek = ''Monday'', averageUsage = Fin 150, peakHours = None\<rparr>
     \<in> set (analyzeUsagePatterns sampleRuntime (Inr weekUsage))
   \<and> foldl (\<lambda>sum val. num_add sum val) (Fin 0) (litersOnWeekday sampleRuntime weekUsage 1) = Fin 300
   \<and> 150 * real (length (litersOnWeekday sampleRuntime weekUsage 1)) = 300
   \<and> \<lparr>dayOfWeek = ''Monday'', averageUsage = Fin (4664442471205157 / 2 ^ 50), peakHours = None\<rparr>
     \<in> set (analyzeUsagePatterns sampleRuntime (Inr mondayUsage))
   \<and> foldl (\<lambda>sum val. num_add sum val) (Fin 0) (litersOnWeekday sampleRuntime mondayUsage 1) = Fin 29
   \<and> \<bar>4664442471205157 / 2 ^ 50 * real (length (litersOnWeekday sampleRuntime mondayUsage 1)) - 29\<bar>
       \<le> \<bar>29\<bar> / 2 ^ 53"
proof -
  let ?week = "\<lparr>dayOfWeek = ''Monday'', averageUsage = Fin 150, peakHours = None\<rparr>"
  let ?monday = "\<lparr>dayOfWeek = ''Monday'', averageUsage = Fin (4664442471205157 / 2 ^ 50),
                   peakHours = None\<rparr>"
  have week: "?week \<in> set (analyzeUsagePatterns sampleRuntime (Inr weekUsage))"
    using analyzeUsagePatterns_valid [OF weekUsage_valid]
    by (simp add: upt_7 weekUsage_by_weekday dayNames_def sample_averages)
  have monday: "?monday \<in> set (analyzeUsagePatterns sampleRuntime (Inr mondayUsage))"
    by (simp add: mondayUsage_patterns)
  have name: "dayOfWeek ?week = dayNames ! 1" "dayOfWeek ?monday = dayNames ! 1"
    by (simp_all add: dayNames_def)
  have sums: "foldl (\<lambda>sum val. num_add sum val) (Fin 0) (litersOnWeekday sampleRuntime weekUsage 1) = Fin 300"
    "foldl (\<lambda>sum val. num_add sum val) (Fin 0) (litersOnWeekday sampleRuntime mondayUsage 1) = Fin 29"
    by (simp_all add: weekUsage_by_weekday mondayUsage_by_weekday binary64_numeral)
  have normal: "pow2 (- 1022) \<le> \<bar>29\<bar> / real (length (litersOnWeekday sampleRuntime mondayUsage 1))"
  proof -
    have "pow2 (- 1022) \<le> pow2 0" by (simp add: pow2_le_iff)
    then have "pow2 (- 1022) \<le> 1" by (simp add: pow2_def [of 0])
    then show ?thesis by (simp add: mondayUsage_by_weekday)
  qed
  have one: "(1::nat) < 7" by simp
  from averageUsage_rounded_quotient [of sampleRuntime mondayUsage] monday one name(2)
  have "\<forall>s. foldl (\<lambda>sum val. num_add sum val) (Fin 0) (litersOnWeekday sampleRuntime mondayUsage 1) = Fin s \<longrightarrow>
          (\<forall>v. averageUsage ?monday = Fin v
                \<and> pow2 (- 1022) \<le> \<bar>s\<bar> / real (length (litersOnWeekday sampleRuntime mondayUsage 1)) \<longrightarrow>
              \<bar>v * real (length (litersOnWeekday sampleRuntime mondayUsage 1)) - s\<bar> \<le> \<bar>s\<bar> / 2 ^ 53)"
    by blast
  with sums(2)
  have "\<forall>v. averageUsage ?monday = Fin v
            \<and> pow2 (- 1022) \<le> \<bar>29\<bar> / real (length (litersOnWeekday sampleRuntime mondayUsage 1)) \<longrightarrow>
          \<bar>v * real (length (litersOnWeekday sampleRuntime mondayUsage 1)) - 29\<bar> \<le> \<bar>29\<bar> / 2 ^ 53"
    by blast
  moreover have "averageUsage ?monday = Fin (4664442471205157 / 2 ^ 50)"
    by simp
  ultimately
  have bound: "\<bar>4664442471205157 / 2 ^ 50 * real (length (litersOnWeekday sampleRuntime mondayUsage 1)) - 29\<bar>
       \<le> \<bar>29\<bar> / 2 ^ 53"
    using normal by blast
  have "150 * real (length (litersOnWeekday sampleRuntime weekUsage 1)) = 300"
    by (simp add: weekUsage_by_weekday)
  with week monday sums bound show ?thesis by blast
qed

text \<open>
  C9 as stated fails: seven Monday events of 29 liters in all have the sum 29 and the
  reported average 4664442471205157 / 2^50 (4.142857142857143), and seven times that is
  not 29, neither exactly nor as the binary64 product, which is 29.000000000000004.
\<close>

theorem averageUsage_times_count_counterexample:
  "analyzeUsagePatterns sampleRuntime (Inr mondayUsage)
     = [\<lparr>dayOfWeek = ''Monday'', averageUsage = Fin (4664442471205157 / 2 ^ 50), peakHours = None\<rparr>]
   \<and> length (litersOnWeekday sampleRuntime mondayUsage 1) = 7
   \<and> sum_list (litersOnWeekday sampleRuntime mondayUsage 1) = 29
   \<and> foldl (\<lambda>sum val. num_add sum val) (Fin 0) (litersOnWeekday sampleRuntime mondayUsage 1) = Fin 29
   \<and> 4664442471205157 / 2 ^ 50 * 7 \<noteq> (29 :: real)
   \<and> binary64 (4664442471205157 / 2 ^ 50 * 7) = Fin (8162774324609025 / 2 ^ 48)
   \<and> 8162774324609025 / 2 ^ 48 \<noteq> (29 :: real)"
  using binary64_times_7
  by (simp add: mondayUsage_patterns mondayUsage_by_weekday binary64_numeral)

subsection \<open>Trend aggregator\<close>

lemma keys_ensureMonth:
  "map fst (ensureMonth k mm) = (if k \<in> set (map fst mm) then map fst mm else map fst mm @ [k])"
  by (auto simp: ensureMonth_def map_of_eq_None_iff)

lemma keys_modifyMonth: "map fst (modifyMonth k f mm) = map fst mm"
  by (induction mm) (auto simp: modifyMonth_def)

lemma keys_addUsageRow:
  "map fst (addUsageRow rt u mm)
   = (let k = monthKey rt (Usage.date u)
      in if k \<in> set (map fst mm) then map fst mm else map fst mm @ [k])"
  by (simp add: addUsageRow_def Let_def keys_modifyMonth keys_ensureMonth)

lemma keys_addBillRow:
  "map fst (addBillRow rt b mm)
   = (let k = monthKey rt (Bill.date b)
      in if k \<in> set (map fst mm) then map fst mm else map fst mm @ [k])"
  by (simp add: addBillRow_def Let_def keys_modifyMonth keys_ensureMonth)

text \<open>The keys of \<^verbatim>\<open>monthMap\<close> stay distinct, and each row adds its own month key.\<close>

lemma keys_fold_usage:
  "distinct (map fst mm) \<Longrightarrow>
   distinct (map fst (fold (addUsageRow rt) usage mm))
   \<and> set (map fst (fold (addUsageRow rt) usage mm))
     = set (map fst mm) \<union> (\<lambda>u. monthKey rt (Usage.date u)) ` set usage"
proof (induction usage arbitrary: mm)
  case Nil
  then show ?case by simp
next
  case (Cons u us)
  have d: "distinct (map fst (addUsageRow rt u mm))"
    using Cons.prems by (simp add: keys_addUsageRow Let_def)
  have s: "set (map fst (addUsageRow rt u mm)) = insert (monthKey rt (Usage.date u)) (set (map fst mm))"
    by (auto simp: keys_addUsageRow Let_def)
  from Cons.IH [OF d] s show ?case by auto
qed

lemma keys_fold_bills:
  "distinct (map fst mm) \<Longrightarrow>
   distinct (map fst (fold (addBillRow rt) bills mm))
   \<and> set (map fst (fold (addBillRow rt) bills mm))
     = set (map fst mm) \<union> (\<lambda>b. monthKey rt (Bill.date b)) ` set bills"
proof (induction bills arbitrary: mm)
  case Nil
  then show ?case by simp
next
  case (Cons b bs)
  have d: "distinct (map fst (addBillRow rt b mm))"
    using Cons.prems by (simp add: keys_addBillRow Let_def)
  have s: "set (map fst (addBillRow rt b mm)) = insert (monthKey rt (Bill.date b)) (set (map fst mm))"
    by (auto simp: keys_addBillRow Let_def)
  from Cons.IH [OF d] s show ?case by auto
qed

lemma keys_buildMonthMap:
  "distinct (map fst (buildMonthMap rt usage bills))"
  "set (map fst (buildMonthMap rt usage bills)) = activeMonths rt usage bills"
proof -
  have u: "distinct (map fst (fold (addUsageRow rt) usage []))"
      "set (map fst (fold (addUsageRow rt) usage [])) = (\<lambda>u. monthKey rt (Usage.date u)) ` set usage"
    using keys_fold_usage [of "[]" rt usage] by simp_all
  from keys_fold_bills [OF u(1), of rt bills] u(2)
  show "distinct (map fst (buildMonthMap rt usage bills))"
    "set (map fst (buildMonthMap rt usage bills)) = activeMonths rt usage bills"
    by (simp_all add: buildMonthMap_def activeMonths_def)
qed

lemma sort_keys_buildMonthMap:
  "sort (map fst (buildMonthMap rt usage bills)) = sorted_list_of_set (activeMonths rt usage bills)"
  using keys_buildMonthMap [of rt usage bills]
  by (metis distinct_remdups_id sorted_list_of_set_sort_remdups)

text \<open>The last loop never throws on keys of the map, and pushes one entry per key.\<close>

lemma pushTrends_keys:
  assumes "set ks \<subseteq> set (map fst mm)"
  shows "\<exists>ts. pushTrends mm ks acc = Inr (acc @ ts) \<and> map month ts = ks"
  using assms
proof (induction ks arbitrary: acc)
  case Nil
  then show ?case by simp
next
  case (Cons k ks)
  from Cons.prems have "k \<in> fst ` set mm" by simp
  then obtain data where data: "map_of mm k = Some data"
    by (metis map_of_eq_None_iff not_Some_eq)
  then obtain t where t: "trendOf mm k = Inr t" "month t = k"
    by (simp add: trendOf_def Let_def)
  from Cons.prems have "set ks \<subseteq> set (map fst mm)" by simp
  from Cons.IH [OF this, of "acc @ [t]"] obtain ts
    where "pushTrends mm ks (acc @ [t]) = Inr ((acc @ [t]) @ ts)" "map month ts = ks" by blast
  then have "pushTrends mm (k # ks) acc = Inr (acc @ (t # ts)) \<and> map month (t # ts) = k # ks"
    using t by simp
  then show ?case by (rule exI [of _ "t # ts"])
qed

lemma slice_from_last:
  "0 \<le> n \<Longrightarrow> slice_from (- n) xs = (if n = 0 then xs else drop (length xs - nat n) xs)"
  by (auto simp: slice_from_def max_def nat_diff_distrib intro: arg_cong [where f = "\<lambda>k. drop k xs"])

lemma month_calculateMonthlyTrends:
  "map month (calculateMonthlyTrends rt months (Inr usage) (Inr bills))
   = slice_from (- months) (sorted_list_of_set (activeMonths rt usage bills))"
proof -
  let ?mm = "buildMonthMap rt usage bills"
  let ?ks = "slice_from (- months) (sort (map fst ?mm))"
  have "set ?ks \<subseteq> set (sort (map fst ?mm))"
    by (auto simp: slice_from_def dest: in_set_dropD)
  then have "set ?ks \<subseteq> set (map fst ?mm)" by simp
  from pushTrends_keys [OF this, of "[]"] obtain ts
    where "pushTrends ?mm ?ks [] = Inr ts" "map month ts = ?ks" by auto
  then show ?thesis
    by (simp add: calculateMonthlyTrends_def Let_def sort_keys_buildMonthMap)
qed

subsection \<open>Month keys in the order of the calendar\<close>

lemma of_char_digit: "d < 10 \<Longrightarrow> (of_char (digit_char d) :: nat) = 48 + d"
proof -
  assume "d < 10"
  then have "d \<in> {0, 1, 2, 3, 4, 5, 6, 7, 8, 9}" by auto
  then show ?thesis by (auto simp: digit_char_def)
qed

lemma digit_char_less: "a < 10 \<Longrightarrow> b < 10 \<Longrightarrow> digit_char a < digit_char b \<longleftrightarrow> a < b"
  by (simp add: less_char_def of_char_digit)

lemma digit_char_eq: "a < 10 \<Longrightarrow> b < 10 \<Longrightarrow> digit_char a = digit_char b \<longleftrightarrow> a = b"
  by (metis add_left_cancel of_char_digit)

lemma append_less_same_length:
  "length xs = length ys \<Longrightarrow> xs @ us < ys @ vs \<longleftrightarrow> xs < ys \<or> (xs = ys \<and> us < vs)"
  for xs :: "'a::linorder list"
  by (induction xs ys rule: list_induct2) auto

lemma length_dec_string_ge2: "10 \<le> n \<Longrightarrow> 2 \<le> length (dec_string n)"
  by (subst dec_string.simps) (simp add: Suc_le_eq dec_string.simps [of "n div 10"])

lemma less_by_digits:
  "(m::nat) < n \<longleftrightarrow> m div 10 < n div 10 \<or> (m div 10 = n div 10 \<and> m mod 10 < n mod 10)"
proof -
  define a b c d where "a = m div 10" and "b = m mod 10" and "c = n div 10" and "d = n mod 10"
  have m: "m = 10 * a + b" and n: "n = 10 * c + d" and bd: "b < 10" "d < 10"
    by (simp_all add: a_def b_def c_def d_def)
  have "10 * a + b < 10 * c + d \<longleftrightarrow> a < c \<or> (a = c \<and> b < d)"
    using bd by arith
  then show ?thesis
    unfolding a_def [symmetric] b_def [symmetric] c_def [symmetric] d_def [symmetric]
    using m n by simp
qed

lemma eq_by_digits:
  "(m::nat) = n \<longleftrightarrow> m div 10 = n div 10 \<and> m mod 10 = n mod 10"
  by (metis div_mult_mod_eq)

text \<open>Among numbers printed with equally many digits, the text orders as the numbers do.\<close>

lemma dec_string_order:
  "length (dec_string m) = length (dec_string n) \<Longrightarrow>
     (dec_string m < dec_string n \<longleftrightarrow> m < n) \<and> (dec_string m = dec_string n \<longleftrightarrow> m = n)"
proof (induction m arbitrary: n rule: dec_string.induct)
  case (1 m)
  show ?case
  proof (cases "m < 10")
    case small: True
    show ?thesis
    proof (cases "n < 10")
      case True
      with small show ?thesis
        by (simp add: dec_string_digit digit_char_less digit_char_eq)
    next
      case False
      then have "2 \<le> length (dec_string n)" by (simp add: length_dec_string_ge2)
      with small "1.prems" show ?thesis by (simp add: dec_string_digit)
    qed
  next
    case big: False
    show ?thesis
    proof (cases "n < 10")
      case True
      from big have "2 \<le> length (dec_string m)" by (simp add: length_dec_string_ge2)
      with True "1.prems" show ?thesis by (simp add: dec_string_digit)
    next
      case False
      have m: "dec_string m = dec_string (m div 10) @ [digit_char (m mod 10)]"
        using big by (simp add: dec_string_more)
      have n: "dec_string n = dec_string (n div 10) @ [digit_char (n mod 10)]"
        using False by (simp add: dec_string_more)
      from "1.prems" have len: "length (dec_string (m div 10)) = length (dec_string (n div 10))"
        by (simp add: m n)
      from "1.IH" [OF big len]
      have ih: "dec_string (m div 10) < dec_string (n div 10) \<longleftrightarrow> m div 10 < n div 10"
        "dec_string (m div 10) = dec_string (n div 10) \<longleftrightarrow> m div 10 = n div 10"
        by simp_all
      have L: "dec_string m < dec_string n
               \<longleftrightarrow> m div 10 < n div 10 \<or> (m div 10 = n div 10 \<and> m mod 10 < n mod 10)"
        unfolding m n by (simp add: append_less_same_length len ih digit_char_less)
      have E: "dec_string m = dec_string n \<longleftrightarrow> m div 10 = n div 10 \<and> m mod 10 = n mod 10"
        unfolding m n by (simp add: ih digit_char_eq)
      show ?thesis
        using L E less_by_digits [of m n] eq_by_digits [of m n] by blast
    qed
  qed
qed

lemma length_dec_string_4: "1000 \<le> n \<Longrightarrow> n < 10000 \<Longrightarrow> length (dec_string n) = 4"
proof -
  assume a: "1000 \<le> n" "n < 10000"
  have 1: "dec_string n = dec_string (n div 10) @ [digit_char (n mod 10)]"
    using a by (simp add: dec_string_more)
  have 2: "dec_string (n div 10) = dec_string (n div 10 div 10) @ [digit_char (n div 10 mod 10)]"
    using a by (intro dec_string_more) linarith
  have 3: "dec_string (n div 10 div 10)
           = dec_string (n div 10 div 10 div 10) @ [digit_char (n div 10 div 10 mod 10)]"
    using a by (intro dec_string_more) linarith
  have 4: "dec_string (n div 10 div 10 div 10) = [digit_char (n div 10 div 10 div 10)]"
    using a by (intro dec_string_digit) linarith
  show ?thesis by (simp add: 1 2 3 4)
qed

lemma month_text:
  "m < 12 \<Longrightarrow> padStart 2 (dec_string (Suc m)) = [digit_char (Suc m div 10), digit_char (Suc m mod 10)]"
proof (cases "Suc m < 10")
  case True
  then show ?thesis
    by (simp add: padStart_def dec_string_digit digit_char_def)
next
  case False
  assume "m < 12"
  with False have "Suc m div 10 < 10" "10 \<le> Suc m" by simp_all
  then show ?thesis
    by (simp add: padStart_def dec_string_digit dec_string_more [of "Suc m"])
qed

lemma month_text_order:
  assumes "m1 < 12" "m2 < 12"
  shows "padStart 2 (dec_string (Suc m1)) < padStart 2 (dec_string (Suc m2)) \<longleftrightarrow> m1 < m2"
    and "padStart 2 (dec_string (Suc m1)) = padStart 2 (dec_string (Suc m2)) \<longleftrightarrow> m1 = m2"
proof -
  have d: "Suc m1 div 10 < 10" "Suc m2 div 10 < 10" "Suc m1 mod 10 < 10" "Suc m2 mod 10 < 10"
    using assms by simp_all
  show "padStart 2 (dec_string (Suc m1)) < padStart 2 (dec_string (Suc m2)) \<longleftrightarrow> m1 < m2"
    using d less_by_digits [of "Suc m1" "Suc m2"]
    by (simp add: month_text assms digit_char_less digit_char_eq)
  show "padStart 2 (dec_string (Suc m1)) = padStart 2 (dec_string (Suc m2)) \<longleftrightarrow> m1 = m2"
    using d eq_by_digits [of "Suc m1" "Suc m2"]
    by (simp add: month_text assms digit_char_eq)
qed

lemma monthKey_chronological:
  assumes "getFullYear rt d1 = Some y1" "getMonth rt d1 = Some m1"
    and "getFullYear rt d2 = Some y2" "getMonth rt d2 = Some m2"
    and "1000 \<le> y1" "y1 \<le> 9999" "1000 \<le> y2" "y2 \<le> 9999" "m1 < 12" "m2 < 12"
  shows "monthKey rt d1 < monthKey rt d2 \<longleftrightarrow> y1 < y2 \<or> (y1 = y2 \<and> m1 < m2)"
proof -
  have len: "length (dec_string (nat y1)) = length (dec_string (nat y2))"
    using assms by (simp add: length_dec_string_4)
  from dec_string_order [OF len]
  have y: "dec_string (nat y1) < dec_string (nat y2) \<longleftrightarrow> y1 < y2"
    "dec_string (nat y1) = dec_string (nat y2) \<longleftrightarrow> y1 = y2"
    using assms by auto
  show ?thesis
    using assms(1-4) assms(5,7)
    by (simp add: monthKey_def int_string_def append_less_same_length len y
        month_text_order [OF assms(9,10)])
qed

lemma sample_monthKeys:
  "monthKey sampleRuntime ''2024-01-01'' = ''2024-01''"
  "monthKey sampleRuntime ''2024-01-08'' = ''2024-01''"
  "monthKey sampleRuntime ''2024-01-03'' = ''2024-01''"
  "monthKey sampleRuntime ''2023-12-05'' = ''2023-12''"
  "monthKey sampleRuntime ''2023-11-05'' = ''2023-11''"
  "monthKey sampleRuntime ''2023-10-05'' = ''2023-10''"
  "monthKey sampleRuntime ''2023-09-05'' = ''2023-09''"
  "monthKey sampleRuntime ''2023-08-05'' = ''2023-08''"
  "monthKey sampleRuntime ''2023-07-05'' = ''2023-07''"
  by (simp_all add: monthKey_def sampleRuntime_def int_string_def padStart_def digit_char_def
      dec_string_digit dec_string_more)

lemma sample_activeMonths:
  "activeMonths sampleRuntime weekUsage halfYearBills
   = set [''2024-01'', ''2023-12'', ''2023-11'', ''2023-10'', ''2023-09'', ''2023-08'', ''2023-07'']"
  by (simp add: activeMonths_def weekUsage_def halfYearBills_def usageRow_def billRow_def
      sample_monthKeys)

lemma sample_sorted_months:
  "sorted_list_of_set (activeMonths sampleRuntime weekUsage halfYearBills)
   = [''2023-07'', ''2023-08'', ''2023-09'', ''2023-10'', ''2023-11'', ''2023-12'', ''2024-01'']"
  "card (activeMonths sampleRuntime weekUsage halfYearBills) = 7"
  unfolding sample_activeMonths sorted_list_of_set_sort_remdups card_set by simp_all

text \<open>
  C3. \<^verbatim>\<open>calculateMonthlyTrends(6)\<close> on any usage events and bills returns at most 6
  entries. Their month keys are the last 6 (or all, when there are fewer) of the month
  keys with a usage event or a bill, in ascending order of the key, without repetition;
  the order of keys is that of the text. For dates in the years 1000 to 9999, the keys
  of two dates order as their (year, month) pairs do, that is by the calendar.
\<close>

theorem calculateMonthlyTrends_last_six_months:
  "length (calculateMonthlyTrends rt 6 (Inr usage) (Inr bills)) \<le> 6
   \<and> map month (calculateMonthlyTrends rt 6 (Inr usage) (Inr bills))
     = drop (card (activeMonths rt usage bills) - 6)
         (sorted_list_of_set (activeMonths rt usage bills))
   \<and> sorted_wrt (<) (map month (calculateMonthlyTrends rt 6 (Inr usage) (Inr bills)))
   \<and> (getFullYear rt d1 = Some y1 \<and> getMonth rt d1 = Some m1
        \<and> getFullYear rt d2 = Some y2 \<and> getMonth rt d2 = Some m2
        \<and> 1000 \<le> y1 \<and> y1 \<le> 9999 \<and> 1000 \<le> y2 \<and> y2 \<le> 9999 \<and> m1 < 12 \<and> m2 < 12
        \<longrightarrow> (monthKey rt d1 < monthKey rt d2 \<longleftrightarrow> y1 < y2 \<or> (y1 = y2 \<and> m1 < m2)))"
proof -
  let ?K = "activeMonths rt usage bills"
  let ?r = "calculateMonthlyTrends rt 6 (Inr usage) (Inr bills)"
  have m: "map month ?r = drop (card ?K - 6) (sorted_list_of_set ?K)"
    using month_calculateMonthlyTrends [of rt 6 usage bills]
    by (simp add: slice_from_last)
  have "length (map month ?r) \<le> 6"
    unfolding m by simp
  then have l: "length ?r \<le> 6" by simp
  have "sorted_wrt (<) (sorted_list_of_set ?K)"
    by (rule strict_sorted_list_of_set)
  then have s: "sorted_wrt (<) (map month ?r)"
    unfolding m by (rule sorted_wrt_drop)
  have "monthKey rt d1 < monthKey rt d2 \<longleftrightarrow> y1 < y2 \<or> (y1 = y2 \<and> m1 < m2)"
    if "getFullYear rt d1 = Some y1" "getMonth rt d1 = Some m1"
      "getFullYear rt d2 = Some y2" "getMonth rt d2 = Some m2"
      "1000 \<le> y1" "y1 \<le> 9999" "1000 \<le> y2" "y2 \<le> 9999" "m1 < 12" "m2 < 12"
    using that by (rule monthKey_chronological)
  with m l s show ?thesis by blast
qed

text \<open>
  C3 on the sample: seven months from July 2023 to January 2024 have activity; the six
  returned are August 2023 to January 2024, oldest first, and the key of December 2023
  is below that of January 2024.
\<close>

theorem calculateMonthlyTrends_last_six_months_witness:
  "map month (calculateMonthlyTrends sampleRuntime 6 (Inr weekUsage) (Inr halfYearBills))
     = [''2023-08'', ''2023-09'', ''2023-10'', ''2023-11'', ''2023-12'', ''2024-01'']
   \<and> length (calculateMonthlyTrends sampleRuntime 6 (Inr weekUsage) (Inr halfYearBills)) \<le> 6
   \<and> monthKey sampleRuntime ''2023-12-05'' < monthKey sampleRuntime ''2024-01-01''"
proof -
  have y: "getFullYear sampleRuntime ''2023-12-05'' = Some 2023"
    "getMonth sampleRuntime ''2023-12-05'' = Some 11"
    "getFullYear sampleRuntime ''2024-01-01'' = Some 2024"
    "getMonth sampleRuntime ''2024-01-01'' = Some 0"
    by (simp_all add: sampleRuntime_def)
  from calculateMonthlyTrends_last_six_months
         [where rt = sampleRuntime and usage = weekUsage and bills = halfYearBills
            and ?d1.0 = "''2023-12-05''" and ?y1.0 = 2023 and ?m1.0 = 11
            and ?d2.0 = "''2024-01-01''" and ?y2.0 = 2024 and ?m2.0 = 0]
  show ?thesis
    unfolding sample_sorted_months using y by simp
qed

subsection \<open>Recommendation composer\<close>

lemma getUserUsageAnalysis_Inl: "getUserUsageAnalysis rt (Inl e) = Inl e"
  by (simp add: getUserUsageAnalysis_def getTotalUsageByDate_def)

lemma getAverageDailyUsage_Inr: "\<exists>avg. getAverageDailyUsage rt n (Inr usage) = Inr avg"
  by (simp add: getAverageDailyUsage_def Let_def)

lemma getUserUsageAnalysis_Inr:
  assumes "getAverageDailyUsage rt 30 (Inr usage) = Inr avg30"
    and "getAverageDailyUsage rt 7 (Inr usage) = Inr avg7"
  shows "\<exists>today. getUserUsageAnalysis rt (Inr usage) =
       Inr \<lparr>todayUsage = today, avgDailyUsage = avg30,
            comparisonToRecommended = ((avg30 - 100) / 100) * 100,
            trend = (if avg7 > avg30 * 1.1 then Increasing
                     else if avg7 < avg30 * 0.9 then Decreasing else Stable)\<rparr>"
  using assms
  by (simp add: getUserUsageAnalysis_def getTotalUsageByDate_def RECOMMENDED_DAILY_USAGE_def)

lemma getUserUsageAnalysis_succeeds: "\<exists>ua. getUserUsageAnalysis rt (Inr usage) = Inr ua"
proof -
  obtain avg30 avg7 where "getAverageDailyUsage rt 30 (Inr usage) = Inr avg30"
    "getAverageDailyUsage rt 7 (Inr usage) = Inr avg7"
    using getAverageDailyUsage_Inr by blast
  from getUserUsageAnalysis_Inr [OF this] show ?thesis by blast
qed

lemma getBillsAnalysis_Inl: "getBillsAnalysis (Inl e) = Inl e"
  by (simp add: getBillsAnalysis_def)

lemma getBillsAnalysis_Inr:
  "getBillsAnalysis (Inr bills) =
     Inr \<lparr>totalConsumption = sum_list (map consumptionLiters bills),
          averageCostPerLiter =
            (if sum_list (map consumptionLiters bills) > 0
             then sum_list (map amount bills) / sum_list (map consumptionLiters bills) else 0),
          billCount = length bills\<rparr>"
  by (simp add: getBillsAnalysis_def getTotalConsumption_def Let_def foldl_add_sum_list)

lemma generateRecommendations_nonempty:
  "generateRecommendations rt usageTable billsTable getLocation getCurrentWeather \<noteq> []"
  by (simp add: generateRecommendations_def Let_def split: sum.splits)

lemma generateRecommendations_store_fails:
  "isl usageTable \<or> isl billsTable \<Longrightarrow>
   generateRecommendations rt usageTable billsTable getLocation getCurrentWeather = [startTracking]"
  by (cases usageTable; cases billsTable)
     (simp_all add: generateRecommendations_def getUserUsageAnalysis_Inl getBillsAnalysis_Inl
        split: sum.splits)

lemma titles_differ:
  "title (usageRecommendation rt ua) \<noteq> ''Start Tracking''"
  "title trendAlert \<noteq> ''Start Tracking''"
  "title (lowRainfall rt rc) \<noteq> ''Start Tracking''"
  "title (reduceCosts rt ba) \<noteq> ''Start Tracking''"
  by (simp_all add: usageRecommendation_def trendAlert_def lowRainfall_def reduceCosts_def Let_def)

lemma startTracking_only_on_failure:
  assumes "\<not> isl usageTable" "\<not> isl billsTable"
  shows "startTracking \<notin> set (generateRecommendations rt usageTable billsTable getLocation getCurrentWeather)"
proof -
  from assms obtain usage bills where tables: "usageTable = Inr usage" "billsTable = Inr bills"
    by (cases usageTable; cases billsTable) auto
  obtain ua where ua: "getUserUsageAnalysis rt (Inr usage) = Inr ua"
    using getUserUsageAnalysis_succeeds by blast
  obtain ba where ba: "getBillsAnalysis (Inr bills) = Inr ba"
    by (simp add: getBillsAnalysis_Inr)
  have t: "title startTracking = ''Start Tracking''" by (simp add: startTracking_def)
  have "title r \<noteq> ''Start Tracking''"
    if "r \<in> set (generateRecommendations rt usageTable billsTable getLocation getCurrentWeather)" for r
    using that titles_differ unfolding tables generateRecommendations_def ua ba
    by (auto simp: Let_def split: if_splits)
  with t show ?thesis by blast
qed

lemma getRegionalWaterContext_unavailable:
  assumes "isl getLocation \<or> (\<exists>loc. getLocation = Inr loc \<and> isl (getCurrentWeather (lat loc) (lon loc)))"
  shows "getRegionalWaterContext getLocation getCurrentWeather
         = \<lparr>temperature = 0, humidity = 0, precipitation = 0,
            recommendation = ''Unable to fetch regional weather data.''\<rparr>"
  using assms by (auto simp: getRegionalWaterContext_def Let_def split: sum.splits)

lemma getRegionalWaterContext_available:
  "RegionalContext.precipitation (getRegionalWaterContext (Inr loc) (\<lambda>la lo. Inr weather))
   = WeatherData.precipitation weather"
  by (simp add: getRegionalWaterContext_def)

text \<open>Of the regional context, only the precipitation reaches the recommendations.\<close>

lemma generateRecommendations_precipitation:
  assumes "RegionalContext.precipitation (getRegionalWaterContext l w)
           = RegionalContext.precipitation (getRegionalWaterContext l' w')"
  shows "generateRecommendations rt u b l w = generateRecommendations rt u b l' w'"
  using assms by (simp add: generateRecommendations_def Let_def lowRainfall_def split: sum.splits)

lemma lowRainfall_in_result:
  assumes "RegionalContext.precipitation (getRegionalWaterContext l w) < 1"
  shows "lowRainfall rt (getRegionalWaterContext l w)
         \<in> set (generateRecommendations rt (Inr usage) (Inr bills) l w)"
proof -
  obtain ua where ua: "getUserUsageAnalysis rt (Inr usage) = Inr ua"
    using getUserUsageAnalysis_succeeds by blast
  show ?thesis
    using assms by (simp add: generateRecommendations_def ua getBillsAnalysis_Inr Let_def)
qed

lemma sample_empty_store:
  "generateRecommendations sampleRuntime (Inr []) (Inr []) (Inr tehran) weatherDown
   = [\<lparr>type = UsageRec, priority = Low, title = ''Excellent Water Conservation!'',
        message = ''Your daily average of 0.0L is within recommended limits.'',
        actionable = ''Keep up the great work! Share your water-saving tips with others.'',
        potentialSavings = None\<rparr>,
      \<lparr>type = RegionalRec, priority = High, title = ''Low Rainfall in Your Area'',
        message = ''Current precipitation: 0.0mm. Your region is experiencing dry conditions.'',
        actionable = ''Limit outdoor watering to early morning only and consider rainwater harvesting for future use.'',
        potentialSavings = None\<rparr>]"
  by (simp add: generateRecommendations_def getUserUsageAnalysis_def getTotalUsageByDate_def
      getAverageDailyUsage_def getBillsAnalysis_def getTotalConsumption_def
      getRegionalWaterContext_def weatherDown_def tehran_def usageRecommendation_def
      lowRainfall_def RECOMMENDED_DAILY_USAGE_def toFixed_1_zero)

text \<open>
  C1, as the code has it. The result is never empty, and no failure reaches the caller
  (the result is a list in every state). When the read of the usage events or the read
  of the bills fails, the result is the single low-priority onboarding recommendation
  of type usage. When both succeed, that recommendation is not part of the result,
  whatever the weather source does: its failure is absorbed by
  \<^verbatim>\<open>getRegionalWaterContext\<close>.
\<close>

theorem generateRecommendations_never_empty:
  "generateRecommendations rt usageTable billsTable getLocation getCurrentWeather \<noteq> []
   \<and> (isl usageTable \<or> isl billsTable \<longrightarrow>
        generateRecommendations rt usageTable billsTable getLocation getCurrentWeather
          = [startTracking])
   \<and> (\<not> isl usageTable \<and> \<not> isl billsTable \<longrightarrow>
        startTracking
          \<notin> set (generateRecommendations rt usageTable billsTable getLocation getCurrentWeather))
   \<and> type startTracking = UsageRec
   \<and> AdvisorRecommendation.priority startTracking = Low
   \<and> title startTracking = ''Start Tracking''"
  using generateRecommendations_nonempty [of rt usageTable billsTable getLocation getCurrentWeather]
    generateRecommendations_store_fails [of usageTable billsTable rt getLocation getCurrentWeather]
    startTracking_only_on_failure [of usageTable billsTable rt getLocation getCurrentWeather]
  by (simp add: startTracking_def)

text \<open>
  C1 with all three sources failing: the single onboarding recommendation.
\<close>

theorem generateRecommendations_never_empty_witness:
  "generateRecommendations sampleRuntime (Inl DataAccessError) (Inl DataAccessError)
     (Inl NetworkError) weatherDown = [startTracking]
   \<and> generateRecommendations sampleRuntime (Inl DataAccessError) (Inr oneBill)
       (Inr tehran) weatherRainy = [startTracking]
   \<and> startTracking
       \<notin> set (generateRecommendations sampleRuntime (Inr weekUsage) (Inr oneBill)
                (Inr tehran) weatherDown)"
  using generateRecommendations_never_empty
          [of sampleRuntime "Inl DataAccessError" "Inl DataAccessError" "Inl NetworkError" weatherDown]
        generateRecommendations_never_empty
          [of sampleRuntime "Inl DataAccessError" "Inr oneBill" "Inr tehran" weatherRainy]
        generateRecommendations_never_empty
          [of sampleRuntime "Inr weekUsage" "Inr oneBill" "Inr tehran" weatherDown]
  by simp

text \<open>
  C1 as stated fails when only the weather read throws: on an empty store with the
  weather source down, the result has two recommendations and is not the onboarding one.
\<close>

theorem generateRecommendations_weather_down_counterexample:
  "isl (weatherDown (lat tehran) (lon tehran))
   \<and> length (generateRecommendations sampleRuntime (Inr []) (Inr []) (Inr tehran) weatherDown) = 2
   \<and> generateRecommendations sampleRuntime (Inr []) (Inr []) (Inr tehran) weatherDown
       \<noteq> [startTracking]"
  unfolding sample_empty_store by (simp add: weatherDown_def)

lemma lightUsage_averages:
  "getAverageDailyUsage sampleRuntime 30 (Inr lightUsage) = Inr 80"
  "getAverageDailyUsage sampleRuntime 7 (Inr lightUsage) = Inr 60"
  by (simp_all add: getAverageDailyUsage_def sample_defs)

lemma oneBill_cost:
  "0 < sum_list (map consumptionLiters oneBill)"
  "sum_list (map amount oneBill) / sum_list (map consumptionLiters oneBill) = 0.02"
  by (simp_all add: sample_defs)

lemma rainy_weather:
  "weatherRainy (lat tehran) (lon tehran) = Inr rainyDay"
  "1 \<le> WeatherData.precipitation rainyDay"
  by (simp_all add: weatherRainy_def rainyDay_def)

lemma toFixed_1_eighty: "toFixed rt 1 80 = ''80.0''" "toFixed rt (Suc 0) 80 = ''80.0''"
  by (simp_all add: toFixed_eval)

text \<open>
  C4, as the code has it. When the bills have a positive total consumption and an
  average cost per liter of 0.02, the 30-day average is at most 100, the 7-day average
  is not above 1.1 times the 30-day average, and the weather read succeeds with a
  precipitation of at least 1, the result has exactly two recommendations: the
  low-priority usage recommendation that the average is within limits, then the bill
  recommendation with potential savings 20.
\<close>

theorem generateRecommendations_cost_only:
  assumes "0 < sum_list (map consumptionLiters bills)"
    and "sum_list (map amount bills) / sum_list (map consumptionLiters bills) = 0.02"
    and "getAverageDailyUsage rt 30 (Inr usage) = Inr avg30" and "avg30 \<le> 100"
    and "getAverageDailyUsage rt 7 (Inr usage) = Inr avg7" and "\<not> avg7 > avg30 * 1.1"
    and "getLocation = Inr loc" and "getCurrentWeather (lat loc) (lon loc) = Inr weather"
    and "1 \<le> WeatherData.precipitation weather"
  shows "generateRecommendations rt (Inr usage) (Inr bills) getLocation getCurrentWeather
         = [\<lparr>type = UsageRec, priority = Low, title = ''Excellent Water Conservation!'',
              message = ''Your daily average of '' @ toFixed rt 1 avg30
                        @ ''L is within recommended limits.'',
              actionable = ''Keep up the great work! Share your water-saving tips with others.'',
              potentialSavings = None\<rparr>,
            \<lparr>type = BillRec, priority = Medium, title = ''Reduce Water Costs'',
              message = ''Your average cost is $0.0200 per liter.'',
              actionable = ''Reducing usage by 1000L monthly could save you $20.00.'',
              potentialSavings = Some 20\<rparr>]"
proof -
  from getUserUsageAnalysis_Inr [OF assms(3,5)] obtain today
    where ua: "getUserUsageAnalysis rt (Inr usage) =
       Inr \<lparr>todayUsage = today, avgDailyUsage = avg30,
            comparisonToRecommended = ((avg30 - 100) / 100) * 100,
            trend = (if avg7 > avg30 * 1.1 then Increasing
                     else if avg7 < avg30 * 0.9 then Decreasing else Stable)\<rparr>"
    by blast
  have ba: "getBillsAnalysis (Inr bills) =
     Inr \<lparr>totalConsumption = sum_list (map consumptionLiters bills),
          averageCostPerLiter = 0.02, billCount = length bills\<rparr>"
    using assms(1,2) by (simp add: getBillsAnalysis_Inr)
  have rc: "RegionalContext.precipitation (getRegionalWaterContext getLocation getCurrentWeather)
            = WeatherData.precipitation weather"
    using assms(7,8) by (simp add: getRegionalWaterContext_def)
  have usage_rec: "usageRecommendation rt
          \<lparr>todayUsage = today, avgDailyUsage = avg30,
           comparisonToRecommended = ((avg30 - 100) / 100) * 100,
           trend = (if avg7 > avg30 * 1.1 then Increasing
                    else if avg7 < avg30 * 0.9 then Decreasing else Stable)\<rparr>
        = \<lparr>type = UsageRec, priority = Low, title = ''Excellent Water Conservation!'',
              message = ''Your daily average of '' @ toFixed rt 1 avg30
                        @ ''L is within recommended limits.'',
              actionable = ''Keep up the great work! Share your water-saving tips with others.'',
              potentialSavings = None\<rparr>"
    using assms(4) by (simp add: usageRecommendation_def RECOMMENDED_DAILY_USAGE_def)
  have cost_rec: "reduceCosts rt \<lparr>totalConsumption = sum_list (map consumptionLiters bills),
          averageCostPerLiter = 0.02, billCount = length bills\<rparr>
        = \<lparr>type = BillRec, priority = Medium, title = ''Reduce Water Costs'',
              message = ''Your average cost is $0.0200 per liter.'',
              actionable = ''Reducing usage by 1000L monthly could save you $20.00.'',
              potentialSavings = Some 20\<rparr>"
    using toFixed_4_cost [of rt] toFixed_2_saving [of rt] by (simp add: reduceCosts_def)
  show ?thesis
    unfolding generateRecommendations_def ua ba
    using assms(6,9) rc usage_rec cost_rec by (simp add: Let_def)
qed

text \<open>
  C4 on the sample: a 30-day average of 80, a 7-day average of 60, one bill of 20 for
  1000 liters and 5 mm of rain.
\<close>

theorem generateRecommendations_cost_only_witness:
  "generateRecommendations sampleRuntime (Inr lightUsage) (Inr oneBill) (Inr tehran) weatherRainy
   = [\<lparr>type = UsageRec, priority = Low, title = ''Excellent Water Conservation!'',
        message = ''Your daily average of 80.0L is within recommended limits.'',
        actionable = ''Keep up the great work! Share your water-saving tips with others.'',
        potentialSavings = None\<rparr>,
      \<lparr>type = BillRec, priority = Medium, title = ''Reduce Water Costs'',
        message = ''Your average cost is $0.0200 per liter.'',
        actionable = ''Reducing usage by 1000L monthly could save you $20.00.'',
        potentialSavings = Some 20\<rparr>]"
proof -
  from generateRecommendations_cost_only
         [where rt = sampleRuntime and usage = lightUsage and bills = oneBill
            and ?avg30.0 = 80 and ?avg7.0 = 60 and getLocation = "Inr tehran" and loc = tehran
            and getCurrentWeather = weatherRainy and weather = rainyDay]
       oneBill_cost lightUsage_averages rainy_weather
  show ?thesis by (simp add: toFixed_1_eighty)
qed

text \<open>
  C4 as stated fails: in a state with an average cost per liter of 0.02 and no other
  trigger, the result has two recommendations, of type usage and bill, not one.
\<close>

theorem generateRecommendations_cost_only_counterexample:
  "sum_list (map amount oneBill) / sum_list (map consumptionLiters oneBill) = 0.02
   \<and> getAverageDailyUsage sampleRuntime 30 (Inr lightUsage) = Inr 80
   \<and> getAverageDailyUsage sampleRuntime 7 (Inr lightUsage) = Inr 60
   \<and> weatherRainy (lat tehran) (lon tehran) = Inr rainyDay
   \<and> WeatherData.precipitation rainyDay = 5
   \<and> map type (generateRecommendations sampleRuntime (Inr lightUsage) (Inr oneBill)
                 (Inr tehran) weatherRainy) = [UsageRec, BillRec]
   \<and> length (generateRecommendations sampleRuntime (Inr lightUsage) (Inr oneBill)
                (Inr tehran) weatherRainy) \<noteq> 1"
  by (simp add: generateRecommendations_def getUserUsageAnalysis_def getTotalUsageByDate_def
      lightUsage_averages getBillsAnalysis_def getTotalConsumption_def oneBill_def billRow_def
      getRegionalWaterContext_def weatherRainy_def rainyDay_def tehran_def
      usageRecommendation_def reduceCosts_def RECOMMENDED_DAILY_USAGE_def)

text \<open>
  C10. When the location or the weather fetch fails, \<^verbatim>\<open>getRegionalWaterContext\<close> returns
  the zero reading. If the usage and bill reads succeed, the result then contains the
  high-priority regional recommendation on low rainfall, reporting 0.0 mm, and the whole
  result is the one produced when the weather source answers with a precipitation of 0.
\<close>

theorem generateRecommendations_weather_unavailable:
  assumes "isl getLocation
           \<or> (\<exists>loc. getLocation = Inr loc \<and> isl (getCurrentWeather (lat loc) (lon loc)))"
  shows "getRegionalWaterContext getLocation getCurrentWeather
           = \<lparr>temperature = 0, humidity = 0, precipitation = 0,
              recommendation = ''Unable to fetch regional weather data.''\<rparr>
       \<and> \<lparr>type = RegionalRec, priority = High, title = ''Low Rainfall in Your Area'',
           message = ''Current precipitation: 0.0mm. Your region is experiencing dry conditions.'',
           actionable = ''Limit outdoor watering to early morning only and consider rainwater harvesting for future use.'',
           potentialSavings = None\<rparr>
          \<in> set (generateRecommendations rt (Inr usage) (Inr bills) getLocation getCurrentWeather)
       \<and> (WeatherData.precipitation drought = 0 \<longrightarrow>
            generateRecommendations rt usageTable billsTable getLocation getCurrentWeather
            = generateRecommendations rt usageTable billsTable (Inr place) (\<lambda>la lo. Inr drought))"
proof -
  note zero = getRegionalWaterContext_unavailable [OF assms]
  have "lowRainfall rt (getRegionalWaterContext getLocation getCurrentWeather)
        \<in> set (generateRecommendations rt (Inr usage) (Inr bills) getLocation getCurrentWeather)"
    by (rule lowRainfall_in_result) (simp add: zero)
  then have alert: "\<lparr>type = RegionalRec, priority = High, title = ''Low Rainfall in Your Area'',
           message = ''Current precipitation: 0.0mm. Your region is experiencing dry conditions.'',
           actionable = ''Limit outdoor watering to early morning only and consider rainwater harvesting for future use.'',
           potentialSavings = None\<rparr>
          \<in> set (generateRecommendations rt (Inr usage) (Inr bills) getLocation getCurrentWeather)"
    by (simp add: zero lowRainfall_def toFixed_1_zero)
  have "generateRecommendations rt usageTable billsTable getLocation getCurrentWeather
        = generateRecommendations rt usageTable billsTable (Inr place) (\<lambda>la lo. Inr drought)"
    if "WeatherData.precipitation drought = 0"
    by (rule generateRecommendations_precipitation)
       (simp add: zero getRegionalWaterContext_available that)
  with zero alert show ?thesis by blast
qed

text \<open>
  C10 on the sample: with the weather source down, 205 liters logged and one bill, the
  result carries the low-rainfall alert at 0.0 mm and equals the result on a dry day.
\<close>

theorem generateRecommendations_weather_unavailable_witness:
  "isl (weatherDown (lat tehran) (lon tehran))
   \<and> RegionalContext.precipitation (getRegionalWaterContext (Inr tehran) weatherDown) = 0
   \<and> \<lparr>type = RegionalRec, priority = High, title = ''Low Rainfall in Your Area'',
       message = ''Current precipitation: 0.0mm. Your region is experiencing dry conditions.'',
       actionable = ''Limit outdoor watering to early morning only and consider rainwater harvesting for future use.'',
       potentialSavings = None\<rparr>
      \<in> set (generateRecommendations sampleRuntime (Inr weekUsage) (Inr oneBill) (Inr tehran) weatherDown)
   \<and> generateRecommendations sampleRuntime (Inr weekUsage) (Inr oneBill) (Inr tehran) weatherDown
     = generateRecommendations sampleRuntime (Inr weekUsage) (Inr oneBill) (Inr tehran) weatherDry"
proof -
  have down: "isl (Inr tehran :: error + LocationData)
           \<or> (\<exists>loc. (Inr tehran :: error + LocationData) = Inr loc \<and> isl (weatherDown (lat loc) (lon loc)))"
    by (simp add: weatherDown_def)
  have dry: "WeatherData.precipitation dryDay = 0" "weatherDry = (\<lambda>la lo. Inr dryDay)"
    by (simp_all add: dryDay_def weatherDry_def fun_eq_iff)
  have fails: "isl (weatherDown (lat tehran) (lon tehran))"
    by (simp add: weatherDown_def)
  note t = generateRecommendations_weather_unavailable
         [OF down, where rt = sampleRuntime and usage = weekUsage and bills = oneBill
            and usageTable = "Inr weekUsage" and billsTable = "Inr oneBill"
            and drought = dryDay and place = tehran]
  from t have zero: "RegionalContext.precipitation (getRegionalWaterContext (Inr tehran) weatherDown) = 0"
    by simp
  from t have same: "generateRecommendations sampleRuntime (Inr weekUsage) (Inr oneBill) (Inr tehran) weatherDown
     = generateRecommendations sampleRuntime (Inr weekUsage) (Inr oneBill) (Inr tehran) weatherDry"
    unfolding dry by blast
  from t fails zero same show ?thesis by blast
qed

end
